theory Spec2Isabelle
  imports Complex_Main "HOL-Library.Char_ord" "HOL-Library.List_Lexorder"
begin

section \<open>Data model (types.ts, with the extended fields the scoring code reads)\<close>

text \<open>
  TypeScript \<open>number\<close> is modelled as \<open>real\<close> for measured quantities (scores, weights,
  spend, play counts), as \<open>int\<close> for identifiers and millisecond timestamps
  (\<open>Date.getTime()\<close>), and as \<open>nat\<close> for the counts that bound a list (\<open>maxResults\<close>,
  \<open>maxPerGenre\<close>, \<open>minGenres\<close>, \<open>maxSponsoredPerList\<close>, the \<open>limit\<close> of a chart).
  Not-a-number and the infinities have no counterpart; the guards of the source that
  keep divisions away from zero are kept as they are written.
\<close>

datatype AgeBand = UNDER_9 | AGE_9_TO_12 | AGE_13_PLUS

datatype Platform = PC | MOBILE | VR | CONSOLE

datatype GameFeature = VOICE_CHAT | TEXT_CHAT | MULTIPLAYER | SINGLE_PLAYER | LOW_INTENSITY

type_synonym GenreId = int
type_synonym GameId = string
type_synonym UserId = string

text \<open>
  \<open>Map<GenreId, number>\<close>: the entries in insertion order. Iterating the map walks the
  list; \<open>get\<close> is \<open>map_of\<close> and \<open>has\<close> is membership of the key list. The keys of a
  map are distinct; no theorem below needs that, so the lists are left unconstrained.
\<close>

type_synonym GenreVector = "(GenreId \<times> real) list"

record UserContext =
  userId :: UserId
  ageBand :: AgeBand
  platform :: Platform
  userGenreVector :: GenreVector

record UserHistory =
  longPlayGames :: "GameId list"
  likedGames :: "GameId list"
  favouritedGames :: "GameId list"
  heavilyPlayed :: "GameId set"

record Game =
  gameId :: GameId
  minAgeBand :: AgeBand
  moderationScore :: real
  releaseDate :: int
  creationDate :: int
  isSponsored :: bool
  sponsoredAmount :: real
  genreVector :: GenreVector
  features :: "GameFeature set"
  playsByAgeBand :: "AgeBand \<rightharpoonup> real"
  totalSessions :: real
  uniquePlayers :: real
  currentSessions :: real
  totalRevenue :: real
  likes :: real
  dislikes :: real
  totalPlays :: real

section \<open>Eligibility and safety filtering (eligibilityFilter.ts)\<close>

record EligibilityConfig =
  moderationThreshold :: real

fun ageBandOrder :: "AgeBand \<Rightarrow> nat" where
  "ageBandOrder UNDER_9 = 0"
| "ageBandOrder AGE_9_TO_12 = 1"
| "ageBandOrder AGE_13_PLUS = 2"

definition isAgeBandEligible :: "Game \<Rightarrow> AgeBand \<Rightarrow> bool" where
  "isAgeBandEligible game userAgeBand =
     (ageBandOrder (minAgeBand game) \<le> ageBandOrder userAgeBand)"

definition passesModeration :: "EligibilityConfig \<Rightarrow> Game \<Rightarrow> bool" where
  "passesModeration config game = (moderationScore game \<ge> moderationThreshold config)"

definition checkFeatureRestrictions :: "Game \<Rightarrow> AgeBand \<Rightarrow> bool" where
  "checkFeatureRestrictions game userAgeBand =
     (if userAgeBand \<noteq> AGE_13_PLUS
      then (if VOICE_CHAT \<in> features game then False else True)
      else True)"

text \<open>The loop of \<open>filterEligible\<close>: each \<open>continue\<close> drops the game, the fall-through pushes it.\<close>

fun filterEligible :: "EligibilityConfig \<Rightarrow> Game list \<Rightarrow> UserContext \<Rightarrow> Game list" where
  "filterEligible config [] userContext = []"
| "filterEligible config (game # candidates) userContext =
     (if \<not> isAgeBandEligible game (ageBand userContext)
        then filterEligible config candidates userContext
      else if \<not> passesModeration config game
        then filterEligible config candidates userContext
      else if \<not> checkFeatureRestrictions game (ageBand userContext)
        then filterEligible config candidates userContext
      else game # filterEligible config candidates userContext)"

definition isEligible :: "EligibilityConfig \<Rightarrow> Game \<Rightarrow> UserContext \<Rightarrow> bool" where
  "isEligible config game userContext =
     (isAgeBandEligible game (ageBand userContext) \<and>
      passesModeration config game \<and>
      checkFeatureRestrictions game (ageBand userContext))"

section \<open>Configuration (types.ts, config.ts: the nine-signal shape the scoring code reads)\<close>

record Weights =
  weight_genreAffinity :: real
  weight_ageBandPopularity :: real
  weight_engagementSimilarity :: real
  weight_favouriteAffinity :: real
  weight_communityRating :: real
  weight_recencyBoost :: real
  weight_sponsoredBoost :: real
  weight_repetitionPenalty :: real
  weight_creationRecencyPenalty :: real

record DiversityRules =
  minGenres :: nat
  maxPerGenre :: nat
  requireLowIntensity :: bool
  avoidAllMultiplayer :: bool

record RecommendationConfig =
  weights :: Weights
  cfg_moderationThreshold :: real
  recencyDecayDays :: real
  creationGracePeriodDays :: real
  creationPenaltyMaxDays :: real
  sponsoredAmountMultiplier :: real
  maxSponsoredBoost :: real
  maxResults :: nat
  maxSponsoredPerList :: nat
  diversityRules :: DiversityRules

definition DEFAULT_CONFIG :: RecommendationConfig where
  "DEFAULT_CONFIG = \<lparr>
     weights = \<lparr>
       weight_genreAffinity = 1,
       weight_ageBandPopularity = 8 / 10,
       weight_engagementSimilarity = 9 / 10,
       weight_favouriteAffinity = 12 / 10,
       weight_communityRating = 7 / 10,
       weight_recencyBoost = 5 / 10,
       weight_sponsoredBoost = 3 / 10,
       weight_repetitionPenalty = 2,
       weight_creationRecencyPenalty = 15 / 10 \<rparr>,
     cfg_moderationThreshold = 8 / 10,
     recencyDecayDays = 90,
     creationGracePeriodDays = 7,
     creationPenaltyMaxDays = 30,
     sponsoredAmountMultiplier = 1 / 1000,
     maxSponsoredBoost = 2,
     maxResults = 50,
     maxSponsoredPerList = 3,
     diversityRules = \<lparr> minGenres = 2, maxPerGenre = 5,
       requireLowIntensity = True, avoidAllMultiplayer = True \<rparr> \<rparr>"

section \<open>Scoring engine (scoringEngine.ts)\<close>

record Breakdown =
  genreAffinity :: real
  ageBandPopularity :: real
  engagementSimilarity :: real
  favouriteAffinity :: real
  communityRating :: real
  recencyBoost :: real
  sponsoredBoost :: real
  repetitionPenalty :: real
  creationRecencyPenalty :: real

record ScoredGame =
  game :: Game
  score :: real
  breakdown :: Breakdown

text \<open>
  \<open>Array.prototype.sort\<close> with a comparison function is a built-in of the language, stable
  since ECMAScript 2019: elements the comparator reports as equal keep their order. It is
  modelled as a stable insertion sort driven by the comparator; an element is placed in
  front of the first element it does not have to follow.
\<close>

fun js_insert :: "('a \<Rightarrow> 'a \<Rightarrow> real) \<Rightarrow> 'a \<Rightarrow> 'a list \<Rightarrow> 'a list" where
  "js_insert cmp x [] = [x]"
| "js_insert cmp x (y # ys) =
     (if cmp x y \<le> 0 then x # y # ys else y # js_insert cmp x ys)"

definition js_sort :: "('a \<Rightarrow> 'a \<Rightarrow> real) \<Rightarrow> 'a list \<Rightarrow> 'a list" where
  "js_sort cmp xs = foldr (js_insert cmp) xs []"

text \<open>\<open>new Set([...])\<close>: the distinct elements in order of first occurrence.\<close>

fun js_set :: "'a list \<Rightarrow> 'a list" where
  "js_set [] = []"
| "js_set (x # xs) = x # filter (\<lambda>y. y \<noteq> x) (js_set xs)"

text \<open>\<open>m.get(k) || 0\<close> on a map of numbers.\<close>

definition get_or_0 :: "('k \<rightharpoonup> real) \<Rightarrow> 'k \<Rightarrow> real" where
  "get_or_0 m k = (case m k of None \<Rightarrow> 0 | Some v \<Rightarrow> v)"

definition cosineSimilarity :: "GenreVector \<Rightarrow> GenreVector \<Rightarrow> real" where
  "cosineSimilarity vec1 vec2 =
     (let allGenres = js_set (map fst vec1 @ map fst vec2);
          (dotProduct, magnitude1, magnitude2) =
            fold (\<lambda>genreId (d, m1, m2).
                    let weight1 = get_or_0 (map_of vec1) genreId;
                        weight2 = get_or_0 (map_of vec2) genreId
                    in (d + weight1 * weight2, m1 + weight1 * weight1, m2 + weight2 * weight2))
                 allGenres (0, 0, 0);
          magnitude1' = sqrt magnitude1;
          magnitude2' = sqrt magnitude2
      in if magnitude1' = 0 \<or> magnitude2' = 0 then 0
         else dotProduct / (magnitude1' * magnitude2'))"

definition computeGenreAffinity :: "GenreVector \<Rightarrow> GenreVector \<Rightarrow> real" where
  "computeGenreAffinity userVector gameVector = cosineSimilarity userVector gameVector"

definition computeAgeBandPopularity :: "Game \<Rightarrow> AgeBand \<Rightarrow> real" where
  "computeAgeBandPopularity g band =
     (let plays = get_or_0 (playsByAgeBand g) band in ln (1 + plays))"

definition averageSimilarityToList :: "Game \<Rightarrow> GameId list \<Rightarrow> real" where
  "averageSimilarityToList g gameIds = (if length gameIds > 0 then 3 / 10 else 0)"

definition computeEngagementSimilarity :: "Game \<Rightarrow> UserHistory \<Rightarrow> real" where
  "computeEngagementSimilarity g userHistory =
     (let longPlaySimilarity = averageSimilarityToList g (longPlayGames userHistory);
          likedSimilarity = averageSimilarityToList g (likedGames userHistory)
      in (longPlaySimilarity + likedSimilarity) / 2)"

definition computeFavouriteAffinity :: "Game \<Rightarrow> UserHistory \<Rightarrow> real" where
  "computeFavouriteAffinity g userHistory =
     (let favouriteSimilarity = averageSimilarityToList g (favouritedGames userHistory)
      in favouriteSimilarity * (15 / 10))"

definition computeCommunityRating :: "Game \<Rightarrow> real" where
  "computeCommunityRating g =
     (let totalReactions = likes g + dislikes g
      in if totalReactions = 0 then 0
         else let ratio = (likes g - dislikes g) / totalReactions;
                  confidence = min 1 (ln (1 + totalReactions) / ln 1000)
              in ratio * confidence)"

text \<open>
  The clock (\<open>new Date()\<close>) is the parameter \<open>now\<close>, in milliseconds as \<open>getTime()\<close>
  returns them; \<open>Math.floor\<close> of the quotient of two integers is \<open>div\<close>.
\<close>

definition msPerDay :: int where
  "msPerDay = 1000 * 60 * 60 * 24"

definition computeRecencyBoost :: "RecommendationConfig \<Rightarrow> int \<Rightarrow> Game \<Rightarrow> real" where
  "computeRecencyBoost config now g =
     (let daysSinceRelease = (now - releaseDate g) div msPerDay
      in exp (- real_of_int daysSinceRelease / recencyDecayDays config))"

definition computeSponsoredBoost :: "RecommendationConfig \<Rightarrow> Game \<Rightarrow> real" where
  "computeSponsoredBoost config g =
     (if \<not> isSponsored g \<or> sponsoredAmount g \<le> 0 then 0
      else let rawBoost = sponsoredAmount g * sponsoredAmountMultiplier config
           in min rawBoost (maxSponsoredBoost config))"

definition computeRepetitionPenalty :: "Game \<Rightarrow> UserHistory \<Rightarrow> real" where
  "computeRepetitionPenalty g userHistory =
     (if gameId g \<in> heavilyPlayed userHistory then 1 else 0)"

definition computeCreationRecencyPenalty :: "RecommendationConfig \<Rightarrow> int \<Rightarrow> Game \<Rightarrow> real" where
  "computeCreationRecencyPenalty config now g =
     (let daysSinceCreation = real_of_int ((now - creationDate g) div msPerDay)
      in if daysSinceCreation < creationGracePeriodDays config then 1
         else if daysSinceCreation \<ge> creationPenaltyMaxDays config then 0
         else let decayRange = creationPenaltyMaxDays config - creationGracePeriodDays config;
                  daysInDecay = daysSinceCreation - creationGracePeriodDays config
              in 1 - daysInDecay / decayRange)"

text \<open>The body of the loop of \<open>scoreGames\<close>: the breakdown of one game and its weighted sum.\<close>

definition scoreGame ::
  "RecommendationConfig \<Rightarrow> int \<Rightarrow> UserContext \<Rightarrow> UserHistory \<Rightarrow> Game \<Rightarrow> ScoredGame" where
  "scoreGame config now userContext userHistory g =
     (let b = \<lparr>
            genreAffinity = computeGenreAffinity (userGenreVector userContext) (genreVector g),
            ageBandPopularity = computeAgeBandPopularity g (ageBand userContext),
            engagementSimilarity = computeEngagementSimilarity g userHistory,
            favouriteAffinity = computeFavouriteAffinity g userHistory,
            communityRating = computeCommunityRating g,
            recencyBoost = computeRecencyBoost config now g,
            sponsoredBoost = computeSponsoredBoost config g,
            repetitionPenalty = computeRepetitionPenalty g userHistory,
            creationRecencyPenalty = computeCreationRecencyPenalty config now g \<rparr>;
          s = weight_genreAffinity (weights config) * genreAffinity b +
              weight_ageBandPopularity (weights config) * ageBandPopularity b +
              weight_engagementSimilarity (weights config) * engagementSimilarity b +
              weight_favouriteAffinity (weights config) * favouriteAffinity b +
              weight_communityRating (weights config) * communityRating b +
              weight_recencyBoost (weights config) * recencyBoost b +
              weight_sponsoredBoost (weights config) * sponsoredBoost b -
              weight_repetitionPenalty (weights config) * repetitionPenalty b -
              weight_creationRecencyPenalty (weights config) * creationRecencyPenalty b
      in \<lparr> game = g, score = s, breakdown = b \<rparr>)"

definition scoreGames ::
  "RecommendationConfig \<Rightarrow> int \<Rightarrow> Game list \<Rightarrow> UserContext \<Rightarrow> UserHistory \<Rightarrow> ScoredGame list" where
  "scoreGames config now eligibleGames userContext userHistory =
     js_sort (\<lambda>a b. score b - score a)
       (map (scoreGame config now userContext userHistory) eligibleGames)"

text \<open>
  The ordering the specification asks of a scored list: scores never increase, and of two
  entries with the same score the one with the smaller identifier comes first.
\<close>

definition precedes_by_score_then_id :: "ScoredGame \<Rightarrow> ScoredGame \<Rightarrow> bool" where
  "precedes_by_score_then_id a b =
     (score a > score b \<or> (score a = score b \<and> gameId (game a) \<le> gameId (game b)))"

fun sorted_by_score_then_id :: "ScoredGame list \<Rightarrow> bool" where
  "sorted_by_score_then_id [] = True"
| "sorted_by_score_then_id (a # rest) =
     (list_all (precedes_by_score_then_id a) rest \<and> sorted_by_score_then_id rest)"

section \<open>Diversity and fairness pass (diversityPass.ts)\<close>

type_synonym GenreCounts = "GenreId \<rightharpoonup> nat"

text \<open>\<open>genreCounts.get(genreId) || 0\<close>.\<close>

definition count_or_0 :: "GenreCounts \<Rightarrow> GenreId \<Rightarrow> nat" where
  "count_or_0 genreCounts genreId = (case genreCounts genreId of None \<Rightarrow> 0 | Some c \<Rightarrow> c)"

definition violatesMaxPerGenre :: "RecommendationConfig \<Rightarrow> ScoredGame \<Rightarrow> GenreCounts \<Rightarrow> bool" where
  "violatesMaxPerGenre config scoredGame genreCounts =
     (let maxPG = maxPerGenre (diversityRules config)
      in list_ex (\<lambda>(genreId, w). count_or_0 genreCounts genreId \<ge> maxPG)
           (genreVector (game scoredGame)))"

definition violatesAllMultiplayer :: "RecommendationConfig \<Rightarrow> ScoredGame \<Rightarrow> ScoredGame list \<Rightarrow> bool" where
  "violatesAllMultiplayer config scoredGame diversified =
     (if \<not> avoidAllMultiplayer (diversityRules config) then False
      else if MULTIPLAYER \<in> features (game scoredGame)
        then (let allMultiplayer =
                    list_all (\<lambda>sg. MULTIPLAYER \<in> features (game sg)) diversified
              in if allMultiplayer \<and> length diversified > 0 then True else False)
      else False)"

definition violatesDiversityRules ::
  "RecommendationConfig \<Rightarrow> ScoredGame \<Rightarrow> ScoredGame list \<Rightarrow> GenreCounts \<Rightarrow> bool" where
  "violatesDiversityRules config scoredGame diversified genreCounts =
     (if violatesMaxPerGenre config scoredGame genreCounts then True
      else if violatesAllMultiplayer config scoredGame diversified then True
      else False)"

definition updateGenreCounts :: "ScoredGame \<Rightarrow> GenreCounts \<Rightarrow> GenreCounts" where
  "updateGenreCounts scoredGame genreCounts =
     fold (\<lambda>(genreId, w) counts. counts(genreId \<mapsto> count_or_0 counts genreId + 1))
       (genreVector (game scoredGame)) genreCounts"

definition countUniqueGenres :: "ScoredGame list \<Rightarrow> nat" where
  "countUniqueGenres diversified =
     length (js_set (concat (map (\<lambda>sg. map fst (genreVector (game sg))) diversified)))"

text \<open>
  The two messages \<open>ensureMinimumRequirements\<close> can write with \<open>console.warn\<close>. The
  function receives the array by reference and returns nothing, so the model returns the
  array as the call leaves it together with the messages written.
\<close>

datatype Warning = TooFewGenres nat nat | NoLowIntensity

definition ensureMinimumRequirements ::
  "RecommendationConfig \<Rightarrow> ScoredGame list \<Rightarrow> ScoredGame list \<times> Warning list" where
  "ensureMinimumRequirements config diversified =
     (let uniqueGenres = countUniqueGenres diversified;
          w1 = (if uniqueGenres < minGenres (diversityRules config)
                then [TooFewGenres uniqueGenres (minGenres (diversityRules config))] else []);
          w2 = (if requireLowIntensity (diversityRules config)
                then (let hasLowIntensity =
                            list_ex (\<lambda>sg. LOW_INTENSITY \<in> features (game sg)) diversified
                      in if \<not> hasLowIntensity then [NoLowIntensity] else [])
                else [])
      in (diversified, w1 @ w2))"

text \<open>
  The loop of \<open>diversify\<close>, with the list built so far and the running genre counts as
  accumulators; \<open>break\<close> returns the list at once.
\<close>

fun diversify_loop ::
  "RecommendationConfig \<Rightarrow> ScoredGame list \<Rightarrow> ScoredGame list \<Rightarrow> GenreCounts \<Rightarrow> ScoredGame list" where
  "diversify_loop config [] diversified genreCounts = diversified"
| "diversify_loop config (scoredGame # rest) diversified genreCounts =
     (if violatesDiversityRules config scoredGame diversified genreCounts
      then diversify_loop config rest diversified genreCounts
      else let diversified' = diversified @ [scoredGame];
               genreCounts' = updateGenreCounts scoredGame genreCounts
           in if length diversified' \<ge> maxResults config then diversified'
              else diversify_loop config rest diversified' genreCounts')"

text \<open>\<open>diversify\<close> returns the list; the second component is what it wrote to the console.\<close>

definition diversify :: "RecommendationConfig \<Rightarrow> ScoredGame list \<Rightarrow> ScoredGame list \<times> Warning list" where
  "diversify config sortedGames =
     (let diversified = diversify_loop config sortedGames [] Map.empty;
          (diversified', warnings) = ensureMinimumRequirements config diversified
      in (diversified', warnings))"

text \<open>The number of entries of a list whose genre vector has the key \<open>g\<close>.\<close>

definition genreCount :: "GenreId \<Rightarrow> ScoredGame list \<Rightarrow> nat" where
  "genreCount g xs = length (filter (\<lambda>sg. g \<in> set (map fst (genreVector (game sg)))) xs)"

section \<open>Sponsored injection and bucketing (bucketOrganizer.ts)\<close>

definition calculateInjectionSlots :: "nat \<Rightarrow> nat \<Rightarrow> nat list" where
  "calculateInjectionSlots organicCount sponsoredCount =
     (let spacing = organicCount div (sponsoredCount + 1)
      in map (\<lambda>i. spacing * (i + 1) + i) [0..<sponsoredCount])"

text \<open>
  One round of the merge loop of \<open>injectSponsored\<close> at output position \<open>i\<close>; the state is
  the result built so far with the two read indices. The array reads are guarded by the
  index tests of the source. When neither branch applies the round pushes nothing.
\<close>

definition injectSponsored_step ::
  "ScoredGame list \<Rightarrow> ScoredGame list \<Rightarrow> nat list \<Rightarrow> nat \<Rightarrow>
   ScoredGame list \<times> nat \<times> nat \<Rightarrow> ScoredGame list \<times> nat \<times> nat" where
  "injectSponsored_step diversifiedGames eligibleSponsored slots i st =
     (case st of (result, sponsoredIndex, organicIndex) \<Rightarrow>
        if i \<in> set slots \<and> sponsoredIndex < length eligibleSponsored
          then (result @ [eligibleSponsored ! sponsoredIndex], sponsoredIndex + 1, organicIndex)
        else if organicIndex < length diversifiedGames
          then (result @ [diversifiedGames ! organicIndex], sponsoredIndex, organicIndex + 1)
        else (result, sponsoredIndex, organicIndex))"

text \<open>The sponsored candidates that are not in the list yet, cut to the allowance.\<close>

definition eligibleSponsoredOf :: "nat \<Rightarrow> ScoredGame list \<Rightarrow> ScoredGame list \<Rightarrow> ScoredGame list" where
  "eligibleSponsoredOf maxPerList diversifiedGames sponsoredGames =
     (let existingIds = set (map (\<lambda>sg. gameId (game sg)) diversifiedGames)
      in take maxPerList (filter (\<lambda>sg. gameId (game sg) \<notin> existingIds) sponsoredGames))"

text \<open>The first argument is the field \<open>maxSponsoredPerList\<close> of the \<open>SponsoredInjector\<close>.\<close>

definition injectSponsored :: "nat \<Rightarrow> ScoredGame list \<Rightarrow> ScoredGame list \<Rightarrow> ScoredGame list" where
  "injectSponsored maxPerList diversifiedGames sponsoredGames =
     (let eligibleSponsored = eligibleSponsoredOf maxPerList diversifiedGames sponsoredGames
      in if length eligibleSponsored = 0 then diversifiedGames
         else let slots = calculateInjectionSlots (length diversifiedGames)
                            (length eligibleSponsored)
              in fst (fold (injectSponsored_step diversifiedGames eligibleSponsored slots)
                        [0..<length diversifiedGames + length eligibleSponsored] ([], 0, 0)))"

record RecommendationBucket =
  bucketId :: string
  title :: string
  games :: "GameId list"

definition organizeBuckets ::
  "ScoredGame list \<Rightarrow> ScoredGame list \<Rightarrow> ScoredGame list \<Rightarrow> ScoredGame list \<Rightarrow>
   RecommendationBucket list" where
  "organizeBuckets recommendedGames popularGames trendingGames sponsoredGames =
     (if length recommendedGames > 0
      then [\<lparr> bucketId = ''recommended_for_you'', title = ''Recommended For You'',
              games = map (\<lambda>sg. gameId (game sg)) recommendedGames \<rparr>] else []) @
     (if length popularGames > 0
      then [\<lparr> bucketId = ''popular_by_age'', title = ''Popular in Your Age Group'',
              games = map (\<lambda>sg. gameId (game sg)) popularGames \<rparr>] else []) @
     (if length trendingGames > 0
      then [\<lparr> bucketId = ''new_and_trending'', title = ''New & Trending'',
              games = map (\<lambda>sg. gameId (game sg)) trendingGames \<rparr>] else []) @
     (if length sponsoredGames > 0
      then [\<lparr> bucketId = ''sponsored_events'', title = ''Sponsored Events'',
              games = map (\<lambda>sg. gameId (game sg)) sponsoredGames \<rparr>] else [])"

section \<open>Chart generation (chartGenerator.ts)\<close>

record GameMetrics =
  playsLast7Days :: real
  playsPrev7Days :: real
  playsLast30Days :: real
  metrics_totalSessions :: real
  metrics_uniquePlayers :: real
  metrics_currentSessions :: real
  metrics_totalRevenue :: real
  metrics_likes :: real
  metrics_dislikes :: real
  favourites :: real
  metrics_totalPlays :: real

text \<open>
  The data source is an interface the engine is given; its two calls are modelled by the
  lists and records they resolve to.
\<close>

record ChartDataSource =
  getGameMetrics :: "GameId \<Rightarrow> AgeBand \<Rightarrow> Platform \<Rightarrow> GameMetrics"
  fetchGamesByAgeAndPlatform :: "AgeBand \<Rightarrow> Platform \<Rightarrow> Game list"

record ChartEntry =
  entry_gameId :: GameId
  entry_score :: real
  rank :: nat

text \<open>
  The tail every generator ends with: sort by score descending, \<open>slice(0, limit)\<close>, and
  \<open>map((entry, index) => ({...entry, rank: index + 1}))\<close>. The limit is a count.
\<close>

definition sortAndRank :: "nat \<Rightarrow> ChartEntry list \<Rightarrow> ChartEntry list" where
  "sortAndRank limit chartList =
     map (\<lambda>(index, entry). entry\<lparr>rank := index + 1\<rparr>)
       (enumerate 0 (take limit (js_sort (\<lambda>a b. entry_score b - entry_score a) chartList)))"

text \<open>The growth score shared by the trending charts.\<close>

definition trendingScore :: "GameMetrics \<Rightarrow> real" where
  "trendingScore metrics =
     (if playsPrev7Days metrics = 0 then playsLast7Days metrics
      else (playsLast7Days metrics - playsPrev7Days metrics) / playsPrev7Days metrics)"

definition generateTopTrending ::
  "ChartDataSource \<Rightarrow> AgeBand \<Rightarrow> Platform \<Rightarrow> nat \<Rightarrow> ChartEntry list" where
  "generateTopTrending dataSource band plat limit =
     (let candidates = fetchGamesByAgeAndPlatform dataSource band plat;
          chartList = map (\<lambda>g.
              let metrics = getGameMetrics dataSource (gameId g) band plat
              in \<lparr> entry_gameId = gameId g, entry_score = trendingScore metrics, rank = 0 \<rparr>)
            candidates
      in sortAndRank limit chartList)"

definition generateUpAndComing ::
  "ChartDataSource \<Rightarrow> int \<Rightarrow> AgeBand \<Rightarrow> Platform \<Rightarrow> nat \<Rightarrow> ChartEntry list" where
  "generateUpAndComing dataSource now band plat limit =
     (let candidates = fetchGamesByAgeAndPlatform dataSource band plat;
          chartList = map (\<lambda>g.
              let daysSinceRelease = (now - releaseDate g) div msPerDay;
                  metrics = getGameMetrics dataSource (gameId g) band plat;
                  recencyWeight = 1 - real_of_int daysSinceRelease / 30;
                  engagementScore = ln (1 + playsLast30Days metrics)
              in \<lparr> entry_gameId = gameId g,
                   entry_score = recencyWeight * (4 / 10) + engagementScore * (6 / 10),
                   rank = 0 \<rparr>)
            (filter (\<lambda>g. \<not> (now - releaseDate g) div msPerDay > 30) candidates)
      in sortAndRank limit chartList)"

definition generateTopPlayingNow ::
  "ChartDataSource \<Rightarrow> AgeBand \<Rightarrow> Platform \<Rightarrow> nat \<Rightarrow> ChartEntry list" where
  "generateTopPlayingNow dataSource band plat limit =
     (let candidates = fetchGamesByAgeAndPlatform dataSource band plat;
          chartList = map (\<lambda>g.
              let metrics = getGameMetrics dataSource (gameId g) band plat
              in \<lparr> entry_gameId = gameId g, entry_score = metrics_currentSessions metrics,
                   rank = 0 \<rparr>)
            candidates
      in sortAndRank limit chartList)"

definition generateTopReplayed ::
  "ChartDataSource \<Rightarrow> AgeBand \<Rightarrow> Platform \<Rightarrow> nat \<Rightarrow> ChartEntry list" where
  "generateTopReplayed dataSource band plat limit =
     (let candidates = fetchGamesByAgeAndPlatform dataSource band plat;
          chartList = map (\<lambda>g.
              let metrics = getGameMetrics dataSource (gameId g) band plat;
                  replayRate = metrics_totalSessions metrics / metrics_uniquePlayers metrics
              in \<lparr> entry_gameId = gameId g, entry_score = replayRate, rank = 0 \<rparr>)
            (filter (\<lambda>g. \<not> metrics_uniquePlayers
                               (getGameMetrics dataSource (gameId g) band plat) = 0)
               candidates)
      in sortAndRank limit chartList)"

definition generateTopEarning ::
  "ChartDataSource \<Rightarrow> AgeBand \<Rightarrow> Platform \<Rightarrow> nat \<Rightarrow> ChartEntry list" where
  "generateTopEarning dataSource band plat limit =
     (let candidates = fetchGamesByAgeAndPlatform dataSource band plat;
          chartList = map (\<lambda>g.
              let metrics = getGameMetrics dataSource (gameId g) band plat
              in \<lparr> entry_gameId = gameId g, entry_score = metrics_totalRevenue metrics,
                   rank = 0 \<rparr>)
            candidates
      in sortAndRank limit chartList)"

definition generateTopRated ::
  "ChartDataSource \<Rightarrow> AgeBand \<Rightarrow> Platform \<Rightarrow> nat \<Rightarrow> ChartEntry list" where
  "generateTopRated dataSource band plat limit =
     (let candidates = fetchGamesByAgeAndPlatform dataSource band plat;
          chartList = map (\<lambda>g.
              let metrics = getGameMetrics dataSource (gameId g) band plat;
                  totalReactions = metrics_likes metrics + metrics_dislikes metrics;
                  ratio = (metrics_likes metrics - metrics_dislikes metrics) / totalReactions;
                  confidence = min 1 (ln (1 + totalReactions) / ln 1000);
                  ratingScore = ratio * confidence
              in \<lparr> entry_gameId = gameId g, entry_score = ratingScore, rank = 0 \<rparr>)
            (filter (\<lambda>g. let metrics = getGameMetrics dataSource (gameId g) band plat
                          in \<not> metrics_likes metrics + metrics_dislikes metrics = 0)
               candidates)
      in sortAndRank limit chartList)"

definition generateTrendingInGenre ::
  "ChartDataSource \<Rightarrow> GenreId \<Rightarrow> AgeBand \<Rightarrow> Platform \<Rightarrow> nat \<Rightarrow> ChartEntry list" where
  "generateTrendingInGenre dataSource genreId band plat limit =
     (let allCandidates = fetchGamesByAgeAndPlatform dataSource band plat;
          candidates = filter (\<lambda>g. genreId \<in> set (map fst (genreVector g))) allCandidates;
          chartList = map (\<lambda>g.
              let metrics = getGameMetrics dataSource (gameId g) band plat
              in \<lparr> entry_gameId = gameId g, entry_score = trendingScore metrics, rank = 0 \<rparr>)
            candidates
      in sortAndRank limit chartList)"

section \<open>Candidate generation (candidateGenerator.ts)\<close>

text \<open>The candidate data source is an interface; each call is modelled by the list it resolves to.\<close>

record CandidateDataSource =
  source_getTopGamesByGenres :: "GenreVector \<Rightarrow> nat \<Rightarrow> Game list"
  source_getPopularGamesByAgeBand :: "AgeBand \<Rightarrow> nat \<Rightarrow> Game list"
  source_getTrendingGames :: "nat \<Rightarrow> Game list"
  source_getEditorialPicks :: "nat \<Rightarrow> Game list"
  source_getSponsoredGames :: "nat \<Rightarrow> Game list"

record CandidateGenerator =
  dataSource :: CandidateDataSource
  sponsoredEnabled :: bool

text \<open>\<open>Map<GameId, Game>\<close> in insertion order; a game whose identifier is present is skipped.\<close>

definition addToCandidateSet :: "(GameId \<times> Game) list \<Rightarrow> Game list \<Rightarrow> (GameId \<times> Game) list" where
  "addToCandidateSet candidateSet gs =
     fold (\<lambda>g cs. if \<not> gameId g \<in> set (map fst cs) then cs @ [(gameId g, g)] else cs)
       gs candidateSet"

definition generateCandidates :: "CandidateGenerator \<Rightarrow> UserContext \<Rightarrow> Game list" where
  "generateCandidates gen userContext =
     (let candidateSet = [];
          genreGames = source_getTopGamesByGenres (dataSource gen) (userGenreVector userContext) 50;
          candidateSet = addToCandidateSet candidateSet genreGames;
          popularGames = source_getPopularGamesByAgeBand (dataSource gen) (ageBand userContext) 50;
          candidateSet = addToCandidateSet candidateSet popularGames;
          trendingGames = source_getTrendingGames (dataSource gen) 30;
          candidateSet = addToCandidateSet candidateSet trendingGames;
          editorialGames = source_getEditorialPicks (dataSource gen) 20;
          candidateSet = addToCandidateSet candidateSet editorialGames;
          candidateSet = (if sponsoredEnabled gen
                          then addToCandidateSet candidateSet
                                 (source_getSponsoredGames (dataSource gen) 15)
                          else candidateSet)
      in map snd candidateSet)"

definition getPopularGamesByAgeBand :: "CandidateGenerator \<Rightarrow> AgeBand \<Rightarrow> nat \<Rightarrow> Game list" where
  "getPopularGamesByAgeBand gen band limit =
     source_getPopularGamesByAgeBand (dataSource gen) band limit"

section \<open>The pipeline (recommendationEngine.ts)\<close>

text \<open>
  The fields of a \<open>RecommendationEngine\<close> object. A component class that holds nothing
  but its constructor argument is the value of that argument: the scoring engine and the
  diversity pass are the configuration they were built from, the sponsored injector is
  its \<open>maxSponsoredPerList\<close>, the chart generator is its data source. The bucket organizer
  has no fields.
\<close>

record RecommendationEngine =
  config :: RecommendationConfig
  candidateGenerator :: CandidateGenerator
  eligibilityFilter :: EligibilityConfig
  scoringEngine :: RecommendationConfig
  diversityPass :: RecommendationConfig
  sponsoredInjector :: nat
  chartGenerator :: ChartDataSource

definition newRecommendationEngine ::
  "RecommendationConfig \<Rightarrow> CandidateDataSource \<Rightarrow> ChartDataSource \<Rightarrow> bool \<Rightarrow> RecommendationEngine" where
  "newRecommendationEngine cfg candidateDataSource chartDataSource sponsoredOn =
     \<lparr> config = cfg,
       candidateGenerator = \<lparr> dataSource = candidateDataSource, sponsoredEnabled = sponsoredOn \<rparr>,
       eligibilityFilter = \<lparr> moderationThreshold = cfg_moderationThreshold cfg \<rparr>,
       scoringEngine = cfg,
       diversityPass = cfg,
       sponsoredInjector = maxSponsoredPerList cfg,
       chartGenerator = chartDataSource \<rparr>"

definition getPopularGames :: "RecommendationEngine \<Rightarrow> UserContext \<Rightarrow> ScoredGame list" where
  "getPopularGames this userContext =
     (let popularGames = getPopularGamesByAgeBand (candidateGenerator this) (ageBand userContext) 20;
          eligible = filterEligible (eligibilityFilter this) popularGames userContext
      in map (\<lambda>g. \<lparr> game = g, score = 0,
                      breakdown = \<lparr> genreAffinity = 0, ageBandPopularity = 0,
                        engagementSimilarity = 0, favouriteAffinity = 0, communityRating = 0,
                        recencyBoost = 0, sponsoredBoost = 0, repetitionPenalty = 0,
                        creationRecencyPenalty = 0 \<rparr> \<rparr>) eligible)"

definition getTrendingGames :: "RecommendationEngine \<Rightarrow> UserContext \<Rightarrow> ScoredGame list" where
  "getTrendingGames this userContext =
     (let trendingEntries = generateTopTrending (chartGenerator this) (ageBand userContext)
                              (platform userContext) 20
      in [])"

text \<open>The clock the scoring signals read is the parameter \<open>now\<close>.\<close>

definition generateRecommendations ::
  "RecommendationEngine \<Rightarrow> int \<Rightarrow> UserContext \<Rightarrow> UserHistory \<Rightarrow> RecommendationBucket list" where
  "generateRecommendations this now userContext userHistory =
     (let candidates = generateCandidates (candidateGenerator this) userContext;
          eligible = filterEligible (eligibilityFilter this) candidates userContext;
          scored = scoreGames (scoringEngine this) now eligible userContext userHistory;
          diversified = fst (diversify (diversityPass this) scored);
          sponsoredGames = filter (\<lambda>sg. isSponsored (game sg)) scored;
          withSponsored = injectSponsored (sponsoredInjector this) diversified sponsoredGames;
          popularGames = getPopularGames this userContext;
          trendingGames = getTrendingGames this userContext
      in organizeBuckets withSponsored popularGames trendingGames sponsoredGames)"

text \<open>
  \<open>ChartType\<close> is a string enum; \<open>OTHER_CHART_TYPE\<close> stands for any value outside it,
  which the \<open>default\<close> branch of the switch receives.
\<close>

datatype ChartType =
    TOP_TRENDING | UP_AND_COMING | TOP_PLAYING_NOW | TOP_REPLAYED | TOP_EARNING | TOP_RATED
  | TRENDING_IN_GENRE | OTHER_CHART_TYPE string

datatype error = Error string

text \<open>
  \<open>limit\<close> and \<open>genreId\<close> are optional arguments: \<open>None\<close> is an argument left out. The
  limit defaults to 50. The test \<open>!genreId\<close> on an optional number succeeds when the
  argument is left out and when it is the number 0.
\<close>

definition generateChart ::
  "RecommendationEngine \<Rightarrow> int \<Rightarrow> ChartType \<Rightarrow> AgeBand \<Rightarrow> Platform \<Rightarrow> nat option \<Rightarrow>
   GenreId option \<Rightarrow> error + ChartEntry list" where
  "generateChart this now chartType band plat limitArg genreId =
     (let limit = (case limitArg of None \<Rightarrow> 50 | Some l \<Rightarrow> l)
      in case chartType of
           TOP_TRENDING \<Rightarrow> Inr (generateTopTrending (chartGenerator this) band plat limit)
         | UP_AND_COMING \<Rightarrow> Inr (generateUpAndComing (chartGenerator this) now band plat limit)
         | TOP_PLAYING_NOW \<Rightarrow> Inr (generateTopPlayingNow (chartGenerator this) band plat limit)
         | TOP_REPLAYED \<Rightarrow> Inr (generateTopReplayed (chartGenerator this) band plat limit)
         | TOP_EARNING \<Rightarrow> Inr (generateTopEarning (chartGenerator this) band plat limit)
         | TOP_RATED \<Rightarrow> Inr (generateTopRated (chartGenerator this) band plat limit)
         | TRENDING_IN_GENRE \<Rightarrow>
             (case genreId of
                None \<Rightarrow> Inl (Error ''genreId is required for TRENDING_IN_GENRE chart'')
              | Some gid \<Rightarrow>
                  if gid = 0
                  then Inl (Error ''genreId is required for TRENDING_IN_GENRE chart'')
                  else Inr (generateTrendingInGenre (chartGenerator this) gid band plat limit))
         | OTHER_CHART_TYPE name \<Rightarrow> Inl (Error (''Unknown chart type: '' @ name)))"

text \<open>
  \<open>Partial<RecommendationConfig>\<close>: every top-level field may be absent. The object
  spread \<open>{...this.config, ...newConfig}\<close> takes a field from \<open>newConfig\<close> where it is
  present and from the current configuration otherwise; \<open>weights\<close> and \<open>diversityRules\<close>
  are replaced whole.
\<close>

record PartialConfig =
  new_weights :: "Weights option"
  new_moderationThreshold :: "real option"
  new_recencyDecayDays :: "real option"
  new_creationGracePeriodDays :: "real option"
  new_creationPenaltyMaxDays :: "real option"
  new_sponsoredAmountMultiplier :: "real option"
  new_maxSponsoredBoost :: "real option"
  new_maxResults :: "nat option"
  new_maxSponsoredPerList :: "nat option"
  new_diversityRules :: "DiversityRules option"

definition or_else :: "'a option \<Rightarrow> 'a \<Rightarrow> 'a" where
  "or_else new old = (case new of None \<Rightarrow> old | Some v \<Rightarrow> v)"

definition spreadConfig :: "RecommendationConfig \<Rightarrow> PartialConfig \<Rightarrow> RecommendationConfig" where
  "spreadConfig old newConfig =
     \<lparr> weights = or_else (new_weights newConfig) (weights old),
       cfg_moderationThreshold =
         or_else (new_moderationThreshold newConfig) (cfg_moderationThreshold old),
       recencyDecayDays = or_else (new_recencyDecayDays newConfig) (recencyDecayDays old),
       creationGracePeriodDays =
         or_else (new_creationGracePeriodDays newConfig) (creationGracePeriodDays old),
       creationPenaltyMaxDays =
         or_else (new_creationPenaltyMaxDays newConfig) (creationPenaltyMaxDays old),
       sponsoredAmountMultiplier =
         or_else (new_sponsoredAmountMultiplier newConfig) (sponsoredAmountMultiplier old),
       maxSponsoredBoost = or_else (new_maxSponsoredBoost newConfig) (maxSponsoredBoost old),
       maxResults = or_else (new_maxResults newConfig) (maxResults old),
       maxSponsoredPerList =
         or_else (new_maxSponsoredPerList newConfig) (maxSponsoredPerList old),
       diversityRules = or_else (new_diversityRules newConfig) (diversityRules old) \<rparr>"

text \<open>
  Engines are objects; a store maps the reference of each live engine to its fields.
  \<open>updateConfig\<close> returns nothing: its effect is the store after the call, in which the
  three assignments to fields of \<open>this\<close> have been made.
\<close>

type_synonym EngineRef = nat
type_synonym Store = "EngineRef \<rightharpoonup> RecommendationEngine"

definition updateConfig :: "EngineRef \<Rightarrow> PartialConfig \<Rightarrow> Store \<Rightarrow> Store" where
  "updateConfig this newConfig store =
     (case store this of
        None \<Rightarrow> store
      | Some e \<Rightarrow>
          let e1 = e\<lparr>config := spreadConfig (config e) newConfig\<rparr>;
              e2 = e1\<lparr>scoringEngine := config e1\<rparr>;
              e3 = e2\<lparr>diversityPass := config e2\<rparr>
          in store(this \<mapsto> e3))"

definition getConfig :: "EngineRef \<Rightarrow> Store \<Rightarrow> RecommendationConfig option" where
  "getConfig this store = map_option config (store this)"

text \<open>
  The filter of each chart kind, in the words of the chart table of the specification:
  Up and Coming keeps the games released at most 30 days ago, Top Re-Played skips the
  games without unique players, Top Rated skips the games without reactions, Trending
  in Genre keeps the games whose genre vector contains the genre; the other charts keep
  every candidate.
\<close>

definition passesChartFilter ::
  "ChartDataSource \<Rightarrow> int \<Rightarrow> ChartType \<Rightarrow> GenreId option \<Rightarrow> AgeBand \<Rightarrow> Platform \<Rightarrow> Game \<Rightarrow> bool" where
  "passesChartFilter source now chartType genreId band plat g =
     (case chartType of
        UP_AND_COMING \<Rightarrow> (now - releaseDate g) div msPerDay \<le> 30
      | TOP_REPLAYED \<Rightarrow> metrics_uniquePlayers (getGameMetrics source (gameId g) band plat) \<noteq> 0
      | TOP_RATED \<Rightarrow>
          metrics_likes (getGameMetrics source (gameId g) band plat) +
          metrics_dislikes (getGameMetrics source (gameId g) band plat) \<noteq> 0
      | TRENDING_IN_GENRE \<Rightarrow>
          (case genreId of
             None \<Rightarrow> False
           | Some gid \<Rightarrow> gid \<in> set (map fst (genreVector g)))
      | _ \<Rightarrow> True)"

text \<open>
  What the specification asks of a chart drawn from \<open>n\<close> passing candidates under a
  limit: the scores never increase along the list, and the ranks in list order are
  \<open>1, \<dots>, min limit n\<close>.
\<close>

definition ranked_chart :: "nat \<Rightarrow> nat \<Rightarrow> ChartEntry list \<Rightarrow> bool" where
  "ranked_chart limit n entries =
     (sorted_wrt (\<lambda>a b. entry_score a \<ge> entry_score b) entries \<and>
      map rank entries = [1..<Suc (min limit n)])"

section \<open>Concrete inputs used to exercise the theorems\<close>

definition game0 :: Game where
  "game0 = \<lparr> gameId = ''g0'', minAgeBand = UNDER_9, moderationScore = 1,
     releaseDate = 0, creationDate = 0, isSponsored = False, sponsoredAmount = 0,
     genreVector = [], features = {}, playsByAgeBand = Map.empty,
     totalSessions = 0, uniquePlayers = 0, currentSessions = 0, totalRevenue = 0,
     likes = 0, dislikes = 0, totalPlays = 0 \<rparr>"

definition user0 :: UserContext where
  "user0 = \<lparr> userId = ''u0'', ageBand = AGE_9_TO_12, platform = PC, userGenreVector = [] \<rparr>"

definition hist0 :: UserHistory where
  "hist0 = \<lparr> longPlayGames = [], likedGames = [], favouritedGames = [],
     heavilyPlayed = {} \<rparr>"

definition breakdown0 :: Breakdown where
  "breakdown0 = \<lparr> genreAffinity = 0, ageBandPopularity = 0, engagementSimilarity = 0,
     favouriteAffinity = 0, communityRating = 0, recencyBoost = 0, sponsoredBoost = 0,
     repetitionPenalty = 0, creationRecencyPenalty = 0 \<rparr>"

text \<open>An entry of score 0 for a game with the given identifier and the single genre 1.\<close>

definition sgGenre1 :: "GameId \<Rightarrow> ScoredGame" where
  "sgGenre1 i = \<lparr> game = game0\<lparr>gameId := i, genreVector := [(1, 1)]\<rparr>, score = 0,
     breakdown = breakdown0 \<rparr>"


text \<open>
  A small catalogue: an ordinary game, a game with voice chat and a sponsored game, the
  sources that serve them and an engine built from the default configuration.
\<close>

definition gameA :: Game where
  "gameA = game0\<lparr>gameId := ''a''\<rparr>"

definition gameV :: Game where
  "gameV = game0\<lparr>gameId := ''v'', features := {VOICE_CHAT}\<rparr>"

definition gameS :: Game where
  "gameS = game0\<lparr>gameId := ''s'', isSponsored := True, sponsoredAmount := 1000\<rparr>"

definition candSource0 :: CandidateDataSource where
  "candSource0 = \<lparr>
     source_getTopGamesByGenres = (\<lambda>v n. [gameA, gameV]),
     source_getPopularGamesByAgeBand = (\<lambda>b n. [gameA]),
     source_getTrendingGames = (\<lambda>n. []),
     source_getEditorialPicks = (\<lambda>n. [gameA]),
     source_getSponsoredGames = (\<lambda>n. [gameS]) \<rparr>"

definition metrics0 :: GameMetrics where
  "metrics0 = \<lparr> playsLast7Days = 0, playsPrev7Days = 0, playsLast30Days = 0,
     metrics_totalSessions = 0, metrics_uniquePlayers = 0, metrics_currentSessions = 0,
     metrics_totalRevenue = 0, metrics_likes = 0, metrics_dislikes = 0, favourites = 0,
     metrics_totalPlays = 0 \<rparr>"

definition chartSource0 :: ChartDataSource where
  "chartSource0 = \<lparr>
     getGameMetrics = (\<lambda>i b p. metrics0\<lparr>playsLast7Days := (if i = ''s'' then 7 else 3)\<rparr>),
     fetchGamesByAgeAndPlatform = (\<lambda>b p. [gameA, gameS]) \<rparr>"

definition engine0 :: RecommendationEngine where
  "engine0 = newRecommendationEngine DEFAULT_CONFIG candSource0 chartSource0 True"

text \<open>A store with two engines, and the empty overlay for \<open>updateConfig\<close>.\<close>

definition engine1 :: RecommendationEngine where
  "engine1 = newRecommendationEngine DEFAULT_CONFIG candSource0 chartSource0 False"

definition store0 :: Store where
  "store0 = [0 \<mapsto> engine0, 1 \<mapsto> engine1]"

definition noChange :: PartialConfig where
  "noChange = \<lparr> new_weights = None, new_moderationThreshold = None,
     new_recencyDecayDays = None, new_creationGracePeriodDays = None,
     new_creationPenaltyMaxDays = None, new_sponsoredAmountMultiplier = None,
     new_maxSponsoredBoost = None, new_maxResults = None, new_maxSponsoredPerList = None,
     new_diversityRules = None \<rparr>"

text \<open>A chart source whose only game carries the genre 0.\<close>

definition chartSourceGenre0 :: ChartDataSource where
  "chartSourceGenre0 = \<lparr>
     getGameMetrics = (\<lambda>i b p. metrics0\<lparr>playsLast7Days := 3\<rparr>),
     fetchGamesByAgeAndPlatform = (\<lambda>b p. [gameA\<lparr>genreVector := [(0, 1)]\<rparr>]) \<rparr>"

text \<open>A chart source with one game of genre 0 and one of genre 2.\<close>

definition chartSourceGenres :: ChartDataSource where
  "chartSourceGenres = \<lparr>
     getGameMetrics = (\<lambda>i b p. metrics0\<lparr>playsLast7Days := 3\<rparr>),
     fetchGamesByAgeAndPlatform =
       (\<lambda>b p. [gameA\<lparr>genreVector := [(0, 1)]\<rparr>, gameS\<lparr>genreVector := [(2, 1)]\<rparr>]) \<rparr>"

section \<open>Eligibility: the three gates\<close>

lemma filterEligible_filter:
  "filterEligible cfg candidates userContext =
     filter (\<lambda>g. isEligible cfg g userContext) candidates"
  by (induction candidates) (simp_all add: isEligible_def)

lemma isEligible_rules:
  "isEligible cfg g userContext =
     (ageBandOrder (minAgeBand g) \<le> ageBandOrder (ageBand userContext) \<and>
      moderationScore g \<ge> moderationThreshold cfg \<and>
      (ageBand userContext = AGE_13_PLUS \<or> VOICE_CHAT \<notin> features g))"
  by (auto simp: isEligible_def isAgeBandEligible_def passesModeration_def
      checkFeatureRestrictions_def)



section \<open>The sort: a stable ordering by descending score\<close>

lemma set_js_insert: "set (js_insert cmp x ys) = insert x (set ys)"
  by (induction ys) auto

lemma set_js_sort: "set (js_sort cmp xs) = set xs"
  by (induction xs) (simp_all add: js_sort_def set_js_insert)

lemma length_js_insert: "length (js_insert cmp x ys) = Suc (length ys)"
  by (induction ys) auto

lemma length_js_sort: "length (js_sort cmp xs) = length xs"
  by (induction xs) (simp_all add: js_sort_def length_js_insert)

lemma sorted_js_insert:
  "sorted_wrt (\<lambda>a b. key a \<ge> key b) ys \<Longrightarrow>
   sorted_wrt (\<lambda>a b. (key a :: real) \<ge> key b) (js_insert (\<lambda>a b. key b - key a) x ys)"
proof (induction ys)
  case Nil
  then show ?case by simp
next
  case (Cons y ys)
  show ?case
  proof (cases "key y - key x \<le> 0")
    case True
    with Cons.prems show ?thesis by auto
  next
    case False
    with Cons show ?thesis by (auto simp: set_js_insert)
  qed
qed

lemma sorted_js_sort:
  "sorted_wrt (\<lambda>a b. (key a :: real) \<ge> key b) (js_sort (\<lambda>a b. key b - key a) xs)"
  by (induction xs) (simp_all add: js_sort_def sorted_js_insert)

text \<open>Stability: the entries that carry one given key keep their input order.\<close>

lemma filter_js_insert:
  "filter (\<lambda>y. key y = (s::real)) (js_insert (\<lambda>a b. key b - key a) x ys) =
     (if key x = s then x # filter (\<lambda>y. key y = s) ys else filter (\<lambda>y. key y = s) ys)"
  by (induction ys) auto

lemma filter_js_sort:
  "filter (\<lambda>y. key y = (s::real)) (js_sort (\<lambda>a b. key b - key a) xs) =
     filter (\<lambda>y. key y = s) xs"
  by (induction xs) (simp_all add: js_sort_def filter_js_insert)

lemma game_scoreGame: "game (scoreGame cfg now userContext userHistory g) = g"
  by (simp add: scoreGame_def Let_def)

lemma score_game0:
  "score (scoreGame DEFAULT_CONFIG 0 user0 hist0 (game0\<lparr>gameId := i\<rparr>)) = -1"
  by (simp add: scoreGame_def DEFAULT_CONFIG_def user0_def hist0_def game0_def
   computeGenreAffinity_def cosineSimilarity_def computeAgeBandPopularity_def get_or_0_def
   computeEngagementSimilarity_def averageSimilarityToList_def computeFavouriteAffinity_def
   computeCommunityRating_def computeRecencyBoost_def computeSponsoredBoost_def
   computeRepetitionPenalty_def computeCreationRecencyPenalty_def msPerDay_def Let_def)

text \<open>
  Claim C3, as the code has it. The list \<open>scoreGames\<close> returns is ordered by score, never
  increasing; the comparator looks at the score alone, so entries with the same score stay
  in the order of the input list. The identifier plays no part in the order.
\<close>

theorem scoreGames_sorted_stable:
  "sorted_wrt (\<lambda>a b. score a \<ge> score b)
     (scoreGames cfg now eligibleGames userContext userHistory) \<and>
   filter (\<lambda>sg. score sg = s) (scoreGames cfg now eligibleGames userContext userHistory) =
     filter (\<lambda>sg. score sg = s) (map (scoreGame cfg now userContext userHistory) eligibleGames)"
  unfolding scoreGames_def
  using sorted_js_sort [of score] filter_js_sort [of score s] by blast

text \<open>
  Claim C3 as stated fails: two games that differ in their identifier only receive the
  same score, and given in the order \<open>b\<close>, \<open>a\<close> they are returned in that order.
\<close>

theorem scoreGames_tie_counterexample:
  "\<not> sorted_by_score_then_id
       (scoreGames DEFAULT_CONFIG 0
          [game0\<lparr>gameId := ''b''\<rparr>, game0\<lparr>gameId := ''a''\<rparr>] user0 hist0)"
  by (simp add: scoreGames_def js_sort_def score_game0 precedes_by_score_then_id_def
      game_scoreGame)

section \<open>Diversity pass: size and per-genre bounds\<close>

lemma count_fold_ge:
  "count_or_0 (fold (\<lambda>(genreId, w) counts. counts(genreId \<mapsto> count_or_0 counts genreId + 1)) kv c) g
     \<ge> count_or_0 c g"
proof (induction kv arbitrary: c)
  case Nil
  then show ?case by simp
next
  case (Cons a kv)
  obtain k w where a: "a = (k, w)" by (cases a)
  have "count_or_0 c g \<le> count_or_0 (c(k \<mapsto> count_or_0 c k + 1)) g"
    by (simp add: count_or_0_def)
  also have "\<dots> \<le> count_or_0 (fold (\<lambda>(genreId, w) counts. counts(genreId \<mapsto> count_or_0 counts genreId + 1)) kv (c(k \<mapsto> count_or_0 c k + 1))) g"
    by (rule Cons.IH)
  finally show ?case by (simp add: a del: fun_upd_apply)
qed

lemma count_fold_gt:
  "g \<in> set (map fst kv) \<Longrightarrow>
   count_or_0 (fold (\<lambda>(genreId, w) counts. counts(genreId \<mapsto> count_or_0 counts genreId + 1)) kv c) g
     > count_or_0 c g"
proof (induction kv arbitrary: c)
  case Nil
  then show ?case by simp
next
  case (Cons a kv)
  obtain k w where a: "a = (k, w)" by (cases a)
  let ?c = "c(k \<mapsto> count_or_0 c k + 1)"
  show ?case
  proof (cases "k = g")
    case True
    have "count_or_0 c g < count_or_0 ?c g" using True by (simp add: count_or_0_def)
    also have "\<dots> \<le> count_or_0 (fold (\<lambda>(genreId, w) counts. counts(genreId \<mapsto> count_or_0 counts genreId + 1)) kv ?c) g"
      by (rule count_fold_ge)
    finally show ?thesis by (simp add: a del: fun_upd_apply)
  next
    case False
    with Cons.prems a have "g \<in> set (map fst kv)" by auto
    have "count_or_0 c g = count_or_0 ?c g" using False by (simp add: count_or_0_def)
    with Cons.IH [OF \<open>g \<in> set (map fst kv)\<close>, of ?c] show ?thesis
      by (simp add: a del: fun_upd_apply)
  qed
qed

lemma updateGenreCounts_ge: "count_or_0 c g \<le> count_or_0 (updateGenreCounts sg c) g"
  unfolding updateGenreCounts_def by (rule count_fold_ge)

lemma updateGenreCounts_gt:
  "g \<in> set (map fst (genreVector (game sg))) \<Longrightarrow>
   count_or_0 c g < count_or_0 (updateGenreCounts sg c) g"
  unfolding updateGenreCounts_def by (rule count_fold_gt)

lemma not_violatesMaxPerGenre:
  "\<not> violatesDiversityRules cfg sg d c \<Longrightarrow> g \<in> set (map fst (genreVector (game sg))) \<Longrightarrow>
   count_or_0 c g < maxPerGenre (diversityRules cfg)"
  by (auto simp: violatesDiversityRules_def violatesMaxPerGenre_def list_ex_iff Let_def
      split: if_splits)

lemma genreCount_snoc:
  "genreCount g (xs @ [sg]) =
     genreCount g xs + (if g \<in> set (map fst (genreVector (game sg))) then 1 else 0)"
  by (simp add: genreCount_def)

lemma diversify_loop_length:
  "length d < maxResults cfg \<Longrightarrow> length (diversify_loop cfg xs d c) \<le> maxResults cfg"
  by (induction xs arbitrary: d c) (auto simp: Let_def)

lemma diversify_loop_genre:
  assumes "\<And>g. genreCount g d \<le> count_or_0 c g"
      and "\<And>g. genreCount g d \<le> maxPerGenre (diversityRules cfg)"
  shows "genreCount g (diversify_loop cfg xs d c) \<le> maxPerGenre (diversityRules cfg)"
  using assms
proof (induction xs arbitrary: d c)
  case Nil
  then show ?case by simp
next
  case (Cons sg xs)
  show ?case
  proof (cases "violatesDiversityRules cfg sg d c")
    case True
    then show ?thesis using Cons by simp
  next
    case False
    let ?d = "d @ [sg]" and ?c = "updateGenreCounts sg c"
    have inv1: "genreCount h ?d \<le> count_or_0 ?c h" for h
    proof (cases "h \<in> set (map fst (genreVector (game sg)))")
      case True
      from updateGenreCounts_gt [OF True, of c] Cons.prems(1) [of h] True
      show ?thesis by (simp add: genreCount_snoc)
    next
      case False
      from updateGenreCounts_ge [of c h sg] Cons.prems(1) [of h] False
      show ?thesis by (simp add: genreCount_snoc)
    qed
    have inv2: "genreCount h ?d \<le> maxPerGenre (diversityRules cfg)" for h
    proof (cases "h \<in> set (map fst (genreVector (game sg)))")
      case True
      from not_violatesMaxPerGenre [OF False True] Cons.prems(1) [of h] True
      show ?thesis by (simp add: genreCount_snoc)
    next
      case False
      with Cons.prems(2) [of h] show ?thesis by (simp add: genreCount_snoc)
    qed
    show ?thesis
    proof (cases "length ?d \<ge> maxResults cfg")
      case True
      with False inv2 [of g] show ?thesis by (simp add: Let_def)
    next
      case ge: False
      have "genreCount g (diversify_loop cfg xs ?d ?c) \<le> maxPerGenre (diversityRules cfg)"
        by (rule Cons.IH) (rule inv1, rule inv2)
      with False ge show ?thesis by (simp add: Let_def)
    qed
  qed
qed

lemma ensureMinimumRequirements_fst: "fst (ensureMinimumRequirements cfg d) = d"
  by (simp add: ensureMinimumRequirements_def Let_def)

lemma fst_diversify: "fst (diversify cfg xs) = diversify_loop cfg xs [] Map.empty"
  using ensureMinimumRequirements_fst [of cfg "diversify_loop cfg xs [] Map.empty"]
  by (simp add: diversify_def Let_def split: prod.splits)

text \<open>
  Claim C4, as the code has it. When \<open>maxResults\<close> is positive, the list \<open>diversify\<close>
  returns has at most \<open>maxResults\<close> entries. For every configuration and every genre \<open>g\<close>,
  at most \<open>maxPerGenre\<close> of the returned entries have \<open>g\<close> in their genre vector, and the
  check after the pass hands back the list it was given, so the returned list is the one
  the greedy pass built. This holds for every input list, sorted or not.
\<close>

theorem diversify_bounds:
  "(0 < maxResults cfg \<longrightarrow> length (fst (diversify cfg sortedGames)) \<le> maxResults cfg) \<and>
   genreCount g (fst (diversify cfg sortedGames)) \<le> maxPerGenre (diversityRules cfg) \<and>
   fst (ensureMinimumRequirements cfg (diversify_loop cfg sortedGames [] Map.empty))
     = diversify_loop cfg sortedGames [] Map.empty \<and>
   fst (diversify cfg sortedGames) = diversify_loop cfg sortedGames [] Map.empty"
proof -
  have "0 < maxResults cfg \<longrightarrow>
      length (diversify_loop cfg sortedGames [] Map.empty) \<le> maxResults cfg"
  proof
    assume "0 < maxResults cfg"
    then show "length (diversify_loop cfg sortedGames [] Map.empty) \<le> maxResults cfg"
      by (intro diversify_loop_length) simp
  qed
  moreover have "genreCount g (diversify_loop cfg sortedGames [] Map.empty)
      \<le> maxPerGenre (diversityRules cfg)"
    by (rule diversify_loop_genre) (simp_all add: genreCount_def)
  ultimately show ?thesis
    by (simp add: fst_diversify ensureMinimumRequirements_fst)
qed

text \<open>
  The witness runs the pass twice: under the default configuration the genre cap stops
  the list at five entries, and with \<open>maxResults\<close> set to 2 the size test ends the loop
  after the second entry.
\<close>

theorem diversify_bounds_witness:
  "0 < maxResults DEFAULT_CONFIG \<and>
   fst (diversify DEFAULT_CONFIG
        (map sgGenre1 [''a'', ''b'', ''c'', ''d'', ''e'', ''f'', ''g'']))
     = map sgGenre1 [''a'', ''b'', ''c'', ''d'', ''e''] \<and>
   length (fst (diversify DEFAULT_CONFIG
        (map sgGenre1 [''a'', ''b'', ''c'', ''d'', ''e'', ''f'', ''g''])))
     \<le> maxResults DEFAULT_CONFIG \<and>
   genreCount 1 (fst (diversify DEFAULT_CONFIG
        (map sgGenre1 [''a'', ''b'', ''c'', ''d'', ''e'', ''f'', ''g''])))
     \<le> maxPerGenre (diversityRules DEFAULT_CONFIG) \<and>
   0 < maxResults (DEFAULT_CONFIG\<lparr>maxResults := 2\<rparr>) \<and>
   fst (diversify (DEFAULT_CONFIG\<lparr>maxResults := 2\<rparr>) (map sgGenre1 [''a'', ''b'', ''c'']))
     = map sgGenre1 [''a'', ''b''] \<and>
   length (fst (diversify (DEFAULT_CONFIG\<lparr>maxResults := 2\<rparr>)
        (map sgGenre1 [''a'', ''b'', ''c''])))
     \<le> maxResults (DEFAULT_CONFIG\<lparr>maxResults := 2\<rparr>)"
proof -
  have pos: "0 < maxResults DEFAULT_CONFIG"
    by (simp add: DEFAULT_CONFIG_def)
  have run: "fst (diversify DEFAULT_CONFIG
        (map sgGenre1 [''a'', ''b'', ''c'', ''d'', ''e'', ''f'', ''g'']))
     = map sgGenre1 [''a'', ''b'', ''c'', ''d'', ''e'']"
    by (simp add: fst_diversify DEFAULT_CONFIG_def sgGenre1_def game0_def
        violatesDiversityRules_def violatesMaxPerGenre_def violatesAllMultiplayer_def
        updateGenreCounts_def count_or_0_def Let_def)
  have pos2: "0 < maxResults (DEFAULT_CONFIG\<lparr>maxResults := 2\<rparr>)"
    by simp
  have run2: "fst (diversify (DEFAULT_CONFIG\<lparr>maxResults := 2\<rparr>)
        (map sgGenre1 [''a'', ''b'', ''c''])) = map sgGenre1 [''a'', ''b'']"
    by (simp add: fst_diversify DEFAULT_CONFIG_def sgGenre1_def game0_def
        violatesDiversityRules_def violatesMaxPerGenre_def violatesAllMultiplayer_def
        updateGenreCounts_def count_or_0_def Let_def)
  have len: "length (fst (diversify DEFAULT_CONFIG
        (map sgGenre1 [''a'', ''b'', ''c'', ''d'', ''e'', ''f'', ''g''])))
     \<le> maxResults DEFAULT_CONFIG"
    by (rule mp [OF conjunct1 [OF diversify_bounds] pos])
  have gen: "genreCount 1 (fst (diversify DEFAULT_CONFIG
        (map sgGenre1 [''a'', ''b'', ''c'', ''d'', ''e'', ''f'', ''g''])))
     \<le> maxPerGenre (diversityRules DEFAULT_CONFIG)"
    by (rule conjunct1 [OF conjunct2 [OF diversify_bounds]])
  have len2: "length (fst (diversify (DEFAULT_CONFIG\<lparr>maxResults := 2\<rparr>)
        (map sgGenre1 [''a'', ''b'', ''c''])))
     \<le> maxResults (DEFAULT_CONFIG\<lparr>maxResults := 2\<rparr>)"
    by (rule mp [OF conjunct1 [OF diversify_bounds] pos2])
  show ?thesis using pos run len gen pos2 run2 len2 by (intro conjI)
qed

text \<open>
  Claim C4 as stated fails for a configuration with \<open>maxResults = 0\<close>: the size test
  comes after the push, so the first admissible entry is returned.
\<close>

theorem diversify_maxResults_zero_counterexample:
  "fst (diversify (DEFAULT_CONFIG\<lparr>maxResults := 0\<rparr>) [sgGenre1 ''a'']) = [sgGenre1 ''a''] \<and>
   maxResults (DEFAULT_CONFIG\<lparr>maxResults := 0\<rparr>) = 0 \<and>
   \<not> length (fst (diversify (DEFAULT_CONFIG\<lparr>maxResults := 0\<rparr>) [sgGenre1 ''a'']))
       \<le> maxResults (DEFAULT_CONFIG\<lparr>maxResults := 0\<rparr>)"
  by (simp add: fst_diversify DEFAULT_CONFIG_def sgGenre1_def game0_def
      violatesDiversityRules_def violatesMaxPerGenre_def violatesAllMultiplayer_def
      updateGenreCounts_def count_or_0_def Let_def)

section \<open>Sponsored injection: the result is a merge of the two lists\<close>

lemma distinct_map_split:
  "distinct (map f (filter (\<lambda>x. f x \<in> A) xs)) \<Longrightarrow>
   distinct (map f (filter (\<lambda>x. f x \<notin> A) xs)) \<Longrightarrow> distinct (map f xs)"
  by (induction xs) (auto split: if_splits)

lemma slot_mem:
  "i \<in> set (calculateInjectionSlots n k) \<longleftrightarrow>
     (\<exists>j<k. i = (n div (k + 1)) * (j + 1) + j)"
  by (auto simp: calculateInjectionSlots_def Let_def)

text \<open>The state of the merge loop after the rounds for the positions below \<open>m\<close>.\<close>

lemma merge_invariant:
  fixes d e :: "ScoredGame list" and P :: "ScoredGame \<Rightarrow> bool"
  assumes dP: "\<And>x. x \<in> set d \<Longrightarrow> P x"
      and eP: "\<And>x. x \<in> set e \<Longrightarrow> \<not> P x"
      and m: "m \<le> length d + length e"
  shows "case fold (injectSponsored_step d e (calculateInjectionSlots (length d) (length e)))
                [0..<m] ([], 0, 0) of
           (res, s, oi) \<Rightarrow>
             s \<le> length e \<and> oi \<le> length d \<and> s + oi = m \<and>
             (\<forall>j<s. (length d div (length e + 1)) * (j + 1) + j < m) \<and>
             (s < length e \<longrightarrow> m \<le> (length d div (length e + 1)) * (s + 1) + s) \<and>
             filter P res = take oi d \<and> filter (\<lambda>x. \<not> P x) res = take s e"
  using m
proof (induction m)
  case 0
  then show ?case by simp
next
  case (Suc m)
  let ?n = "length d" and ?k = "length e"
  let ?sp = "?n div (?k + 1)"
  let ?slots = "calculateInjectionSlots ?n ?k"
  obtain res s oi where st:
    "fold (injectSponsored_step d e ?slots) [0..<m] ([], 0, 0) = (res, s, oi)"
    by (metis prod_cases3)
  from Suc.IH Suc.prems st have
    sk: "s \<le> ?k" and on: "oi \<le> ?n" and som: "s + oi = m"
    and below: "\<forall>j<s. ?sp * (j + 1) + j < m"
    and next_slot: "s < ?k \<longrightarrow> m \<le> ?sp * (s + 1) + s"
    and fP: "filter P res = take oi d" and fN: "filter (\<lambda>x. \<not> P x) res = take s e"
    by auto
  have step: "fold (injectSponsored_step d e ?slots) [0..<Suc m] ([], 0, 0)
      = injectSponsored_step d e ?slots m (res, s, oi)"
    by (simp add: st)
  show ?case
  proof (cases "m \<in> set ?slots \<and> s < ?k")
    case True
    then obtain j where j: "j < ?k" "m = ?sp * (j + 1) + j"
      by (auto simp: slot_mem)
    have "j = s"
    proof (rule ccontr)
      assume "j \<noteq> s"
      then consider "j < s" | "s < j" by linarith
      then show False
      proof cases
        case 1
        with below j show ?thesis by auto
      next
        case 2
        then have "s + 1 \<le> j" by simp
        then have "?sp * (s + 1) \<le> ?sp * (j + 1)" by simp
        with 2 have "?sp * (s + 1) + s < ?sp * (j + 1) + j" by linarith
        with next_slot True j show ?thesis by simp
      qed
    qed
    have new: "injectSponsored_step d e ?slots m (res, s, oi) = (res @ [e ! s], s + 1, oi)"
      using True by (simp add: injectSponsored_step_def)
    have es: "e ! s \<in> set e" using True by simp
    have "?sp * (s + 1) + s + 1 \<le> ?sp * (s + 2) + (s + 1)" by simp
    with j \<open>j = s\<close> have nxt: "Suc m \<le> ?sp * (s + 1 + 1) + (s + 1)" by simp
    have blw: "\<forall>j<s + 1. ?sp * (j + 1) + j < Suc m"
    proof (intro allI impI)
      fix i assume "i < s + 1"
      then consider "i < s" | "i = s" by linarith
      then show "?sp * (i + 1) + i < Suc m"
      proof cases
        case 1
        with below show ?thesis by (simp add: less_SucI)
      next
        case 2
        with j \<open>j = s\<close> show ?thesis by simp
      qed
    qed
    from True sk on som fP fN eP [OF es] nxt blw
    show ?thesis
      unfolding step new
      by (simp add: take_Suc_conv_app_nth)
  next
    case False
    have oilt: "oi < ?n"
    proof (cases "s < ?k")
      case True
      with False have "m \<notin> set ?slots" by simp
      with True have "m \<noteq> ?sp * (s + 1) + s" by (auto simp: slot_mem)
      with next_slot True have "m < ?sp * (s + 1) + s" by simp
      with som have "oi < ?sp * (s + 1)" by linarith
      also have "\<dots> \<le> ?sp * (?k + 1)" using True by simp
      also have "\<dots> \<le> ?n" by (rule div_times_less_eq_dividend)
      finally show ?thesis .
    next
      case False
      with sk have "s = ?k" by simp
      with som Suc.prems show ?thesis by linarith
    qed
    have new: "injectSponsored_step d e ?slots m (res, s, oi) = (res @ [d ! oi], s, oi + 1)"
      using False oilt by (auto simp: injectSponsored_step_def)
    have dsoi: "d ! oi \<in> set d" using oilt by simp
    have nxt: "s < ?k \<longrightarrow> Suc m \<le> ?sp * (s + 1) + s"
    proof
      assume sk': "s < ?k"
      with False have "m \<notin> set ?slots" by simp
      with sk' have "m \<noteq> ?sp * (s + 1) + s" by (auto simp: slot_mem)
      with next_slot sk' show "Suc m \<le> ?sp * (s + 1) + s" by simp
    qed
    have blw: "\<forall>j<s. ?sp * (j + 1) + j < Suc m"
      using below by (simp add: less_SucI)
    from sk oilt som fP fN dP [OF dsoi] nxt blw
    show ?thesis
      unfolding step new
      by (simp add: take_Suc_conv_app_nth)
  qed
qed

lemma eligibleSponsoredOf_fresh:
  "x \<in> set (eligibleSponsoredOf maxPerList d sp) \<Longrightarrow>
   gameId (game x) \<notin> set (map (\<lambda>sg. gameId (game sg)) d)"
  by (auto simp: eligibleSponsoredOf_def Let_def dest: in_set_takeD)

lemma length_eligibleSponsoredOf: "length (eligibleSponsoredOf maxPerList d sp) \<le> maxPerList"
  by (simp add: eligibleSponsoredOf_def Let_def)

lemma distinct_eligibleSponsoredOf:
  "distinct (map (\<lambda>sg. gameId (game sg)) sp) \<Longrightarrow>
   distinct (map (\<lambda>sg. gameId (game sg)) (eligibleSponsoredOf maxPerList d sp))"
  by (simp add: eligibleSponsoredOf_def Let_def distinct_map_filter distinct_take
      flip: take_map)

text \<open>The result is a merge of the two lists: each is recovered by filtering the result.\<close>

lemma injectSponsored_merge:
  "filter (\<lambda>x. gameId (game x) \<in> set (map (\<lambda>sg. gameId (game sg)) d))
      (injectSponsored maxPerList d sp) = d \<and>
   filter (\<lambda>x. gameId (game x) \<notin> set (map (\<lambda>sg. gameId (game sg)) d))
      (injectSponsored maxPerList d sp) = eligibleSponsoredOf maxPerList d sp"
proof (cases "length (eligibleSponsoredOf maxPerList d sp) = 0")
  case True
  then show ?thesis by (simp add: injectSponsored_def)
next
  case False
  let ?e = "eligibleSponsoredOf maxPerList d sp"
  let ?P = "\<lambda>x. gameId (game x) \<in> set (map (\<lambda>sg. gameId (game sg)) d)"
  obtain res s oi where st:
    "fold (injectSponsored_step d ?e (calculateInjectionSlots (length d) (length ?e)))
       [0..<length d + length ?e] ([], 0, 0) = (res, s, oi)"
    by (metis prod_cases3)
  have "case fold (injectSponsored_step d ?e (calculateInjectionSlots (length d) (length ?e)))
                [0..<length d + length ?e] ([], 0, 0) of
           (res, s, oi) \<Rightarrow>
             s \<le> length ?e \<and> oi \<le> length d \<and> s + oi = length d + length ?e \<and>
             (\<forall>j<s. (length d div (length ?e + 1)) * (j + 1) + j < length d + length ?e) \<and>
             (s < length ?e \<longrightarrow> length d + length ?e \<le> (length d div (length ?e + 1)) * (s + 1) + s) \<and>
             filter ?P res = take oi d \<and> filter (\<lambda>x. \<not> ?P x) res = take s ?e"
    by (rule merge_invariant) (use eligibleSponsoredOf_fresh in auto)
  with st have "s \<le> length ?e" "oi \<le> length d" "s + oi = length d + length ?e"
    and f: "filter ?P res = take oi d" "filter (\<lambda>x. \<not> ?P x) res = take s ?e"
    by auto
  then have "s = length ?e" "oi = length d" by linarith+
  with f have "filter ?P res = d" "filter (\<lambda>x. \<not> ?P x) res = ?e" by simp_all
  moreover have "injectSponsored maxPerList d sp = res"
    using False st by (simp add: injectSponsored_def Let_def)
  ultimately show ?thesis by simp
qed

text \<open>
  Claim C5. For a diversified list with pairwise distinct identifiers and a sponsored
  candidate list without duplicates, the result of \<open>injectSponsored\<close> has no duplicate
  identifier; the entries it adds to the diversified list number at most
  \<open>maxSponsoredPerList\<close>; when every sponsored candidate is already in the diversified
  list the input is returned as it is; and the result is a merge of the two lists: the
  organic entries in their order, all of them, and the inserted sponsored entries in the
  order of the candidate list.
\<close>

theorem injectSponsored_correct:
  assumes "distinct (map (\<lambda>sg. gameId (game sg)) diversifiedGames)"
      and "distinct (map (\<lambda>sg. gameId (game sg)) sponsoredGames)"
  shows "distinct (map (\<lambda>sg. gameId (game sg))
           (injectSponsored maxPerList diversifiedGames sponsoredGames)) \<and>
         length (filter (\<lambda>x. gameId (game x) \<notin> set (map (\<lambda>sg. gameId (game sg)) diversifiedGames))
           (injectSponsored maxPerList diversifiedGames sponsoredGames)) \<le> maxPerList \<and>
         (filter (\<lambda>x. gameId (game x) \<notin> set (map (\<lambda>sg. gameId (game sg)) diversifiedGames))
            sponsoredGames = [] \<longrightarrow>
            injectSponsored maxPerList diversifiedGames sponsoredGames = diversifiedGames) \<and>
         filter (\<lambda>x. gameId (game x) \<in> set (map (\<lambda>sg. gameId (game sg)) diversifiedGames))
           (injectSponsored maxPerList diversifiedGames sponsoredGames) = diversifiedGames \<and>
         filter (\<lambda>x. gameId (game x) \<notin> set (map (\<lambda>sg. gameId (game sg)) diversifiedGames))
           (injectSponsored maxPerList diversifiedGames sponsoredGames)
           = take maxPerList
               (filter (\<lambda>x. gameId (game x) \<notin> set (map (\<lambda>sg. gameId (game sg)) diversifiedGames))
                  sponsoredGames)"
proof -
  let ?f = "\<lambda>sg. gameId (game sg)"
  let ?A = "set (map ?f diversifiedGames)"
  let ?r = "injectSponsored maxPerList diversifiedGames sponsoredGames"
  let ?e = "eligibleSponsoredOf maxPerList diversifiedGames sponsoredGames"
  have m1: "filter (\<lambda>x. ?f x \<in> ?A) ?r = diversifiedGames"
    and m2: "filter (\<lambda>x. ?f x \<notin> ?A) ?r = ?e"
    using injectSponsored_merge [of diversifiedGames maxPerList sponsoredGames] by blast+
  have "distinct (map ?f (filter (\<lambda>x. ?f x \<in> ?A) ?r))"
    using assms(1) by (simp only: m1)
  moreover have "distinct (map ?f (filter (\<lambda>x. ?f x \<notin> ?A) ?r))"
    using distinct_eligibleSponsoredOf [OF assms(2)] by (simp only: m2)
  ultimately have d: "distinct (map ?f ?r)" by (rule distinct_map_split)
  have l: "length (filter (\<lambda>x. ?f x \<notin> ?A) ?r) \<le> maxPerList"
    by (simp only: m2 length_eligibleSponsoredOf)
  have u: "filter (\<lambda>x. ?f x \<notin> ?A) sponsoredGames = [] \<longrightarrow> ?r = diversifiedGames"
    by (simp add: injectSponsored_def eligibleSponsoredOf_def)
  have e: "?e = take maxPerList (filter (\<lambda>x. ?f x \<notin> ?A) sponsoredGames)"
    by (simp add: eligibleSponsoredOf_def)
  show ?thesis using d l u m1 m2 e by simp
qed

theorem injectSponsored_correct_witness:
  "distinct (map (\<lambda>sg. gameId (game sg)) (map sgGenre1 [''a'', ''b'', ''c'', ''d'', ''e''])) \<and>
   distinct (map (\<lambda>sg. gameId (game sg)) (map sgGenre1 [''x'', ''b'', ''y''])) \<and>
   injectSponsored 3 (map sgGenre1 [''a'', ''b'', ''c'', ''d'', ''e''])
       (map sgGenre1 [''x'', ''b'', ''y''])
     = map sgGenre1 [''a'', ''x'', ''b'', ''y'', ''c'', ''d'', ''e''] \<and>
   distinct (map (\<lambda>sg. gameId (game sg))
     (injectSponsored 3 (map sgGenre1 [''a'', ''b'', ''c'', ''d'', ''e''])
        (map sgGenre1 [''x'', ''b'', ''y'']))) \<and>
   filter (\<lambda>x. gameId (game x) \<notin>
             set (map (\<lambda>sg. gameId (game sg)) (map sgGenre1 [''a'', ''b'', ''c'', ''d'', ''e''])))
      (map sgGenre1 [''b'']) = [] \<and>
   injectSponsored 3 (map sgGenre1 [''a'', ''b'', ''c'', ''d'', ''e'']) (map sgGenre1 [''b''])
     = map sgGenre1 [''a'', ''b'', ''c'', ''d'', ''e'']"
proof -
  have d1: "distinct (map (\<lambda>sg. gameId (game sg))
      (map sgGenre1 [''a'', ''b'', ''c'', ''d'', ''e'']))"
    by (simp add: sgGenre1_def)
  have d2: "distinct (map (\<lambda>sg. gameId (game sg)) (map sgGenre1 [''x'', ''b'', ''y'']))"
    by (simp add: sgGenre1_def)
  have d3: "distinct (map (\<lambda>sg. gameId (game sg)) (map sgGenre1 [''b'']))"
    by simp
  have run: "injectSponsored 3 (map sgGenre1 [''a'', ''b'', ''c'', ''d'', ''e''])
       (map sgGenre1 [''x'', ''b'', ''y''])
     = map sgGenre1 [''a'', ''x'', ''b'', ''y'', ''c'', ''d'', ''e'']"
    by (simp add: injectSponsored_def eligibleSponsoredOf_def calculateInjectionSlots_def
        injectSponsored_step_def sgGenre1_def game0_def upt_rec Let_def)
  have none_left: "filter (\<lambda>x. gameId (game x) \<notin>
             set (map (\<lambda>sg. gameId (game sg)) (map sgGenre1 [''a'', ''b'', ''c'', ''d'', ''e''])))
      (map sgGenre1 [''b'']) = []"
    by (simp add: sgGenre1_def)
  have "filter (\<lambda>x. gameId (game x) \<notin>
             set (map (\<lambda>sg. gameId (game sg)) (map sgGenre1 [''a'', ''b'', ''c'', ''d'', ''e''])))
      (map sgGenre1 [''b'']) = [] \<longrightarrow>
    injectSponsored 3 (map sgGenre1 [''a'', ''b'', ''c'', ''d'', ''e''])
      (map sgGenre1 [''b'']) = map sgGenre1 [''a'', ''b'', ''c'', ''d'', ''e'']"
    by (rule conjunct1 [OF conjunct2 [OF conjunct2 [OF injectSponsored_correct [OF d1 d3, of 3]]]])
  from this none_left
  have unchanged: "injectSponsored 3 (map sgGenre1 [''a'', ''b'', ''c'', ''d'', ''e''])
      (map sgGenre1 [''b'']) = map sgGenre1 [''a'', ''b'', ''c'', ''d'', ''e'']"
    by (rule mp)
  from injectSponsored_correct [OF d1 d2, of 3]
  have "distinct (map (\<lambda>sg. gameId (game sg))
     (injectSponsored 3 (map sgGenre1 [''a'', ''b'', ''c'', ''d'', ''e''])
        (map sgGenre1 [''x'', ''b'', ''y''])))"
    by (rule conjunct1)
  then show ?thesis using d1 d2 run none_left unchanged by (intro conjI)
qed

section \<open>The pipeline: what reaches the buckets\<close>

lemma set_filterEligible:
  "set (filterEligible c xs u) = {g \<in> set xs. isEligible c g u}"
  by (simp add: filterEligible_filter)

lemma game_set_scoreGames:
  "game ` set (scoreGames cfg now xs u h) = set xs"
  by (simp add: scoreGames_def set_js_sort image_image game_scoreGame)

lemma set_diversify_loop:
  "set (diversify_loop cfg xs d c) \<subseteq> set d \<union> set xs"
proof (induction xs arbitrary: d c)
  case Nil
  then show ?case by simp
next
  case (Cons x xs)
  have a: "set (diversify_loop cfg xs d c) \<subseteq> set d \<union> set xs" by (rule Cons.IH)
  have b: "set (diversify_loop cfg xs (d @ [x]) (updateGenreCounts x c))
      \<subseteq> set (d @ [x]) \<union> set xs" by (rule Cons.IH)
  from a b show ?case by (auto simp: Let_def)
qed

lemma set_diversify: "set (fst (diversify cfg xs)) \<subseteq> set xs"
  using set_diversify_loop [of cfg xs "[]" Map.empty] by (simp add: fst_diversify)

lemma set_injectSponsored:
  "set (injectSponsored m d sp) \<subseteq> set d \<union> set sp"
proof -
  let ?P = "\<lambda>x. gameId (game x) \<in> set (map (\<lambda>sg. gameId (game sg)) d)"
  let ?r = "injectSponsored m d sp"
  have "set ?r = set (filter ?P ?r) \<union> set (filter (\<lambda>x. \<not> ?P x) ?r)" by auto
  also have "\<dots> = set d \<union> set (eligibleSponsoredOf m d sp)"
    using injectSponsored_merge [of d m sp] by simp
  also have "\<dots> \<subseteq> set d \<union> set sp"
    by (auto simp: eligibleSponsoredOf_def Let_def dest: in_set_takeD)
  finally show ?thesis .
qed

lemma organizeBuckets_games:
  "b \<in> set (organizeBuckets r p t s) \<Longrightarrow>
   set (games b) \<subseteq> (\<lambda>sg. gameId (game sg)) ` (set r \<union> set p \<union> set t \<union> set s)"
  by (auto simp: organizeBuckets_def split: if_splits)

lemma getTrendingGames_empty: "getTrendingGames this u = []"
  by (simp add: getTrendingGames_def Let_def)

lemma game_set_getPopularGames:
  "game ` set (getPopularGames this u) =
     {g \<in> set (getPopularGamesByAgeBand (candidateGenerator this) (ageBand u) 20).
        isEligible (eligibilityFilter this) g u}"
  by (simp add: getPopularGames_def Let_def image_image set_filterEligible)

text \<open>The pipeline run on the small catalogue, stage by stage.\<close>

lemma cands0: "generateCandidates (candidateGenerator engine0) user0 = [gameA, gameV, gameS]"
  by (simp add: engine0_def newRecommendationEngine_def generateCandidates_def candSource0_def
      addToCandidateSet_def gameA_def gameV_def gameS_def game0_def Let_def)

lemma elig0_run: "filterEligible (eligibilityFilter engine0) [gameA, gameV, gameS] user0 = [gameA, gameS]"
  by (simp add: engine0_def newRecommendationEngine_def DEFAULT_CONFIG_def user0_def
      isAgeBandEligible_def passesModeration_def checkFeatureRestrictions_def
      gameA_def gameV_def gameS_def game0_def)

lemma score_A: "score (scoreGame DEFAULT_CONFIG 0 user0 hist0 gameA) = -1"
  by (simp add: gameA_def score_game0)

lemma score_S: "score (scoreGame DEFAULT_CONFIG 0 user0 hist0 gameS) = - 7 / 10"
  by (simp add: scoreGame_def DEFAULT_CONFIG_def user0_def hist0_def game0_def gameS_def
   computeGenreAffinity_def cosineSimilarity_def computeAgeBandPopularity_def get_or_0_def
   computeEngagementSimilarity_def averageSimilarityToList_def computeFavouriteAffinity_def
   computeCommunityRating_def computeRecencyBoost_def computeSponsoredBoost_def
   computeRepetitionPenalty_def computeCreationRecencyPenalty_def msPerDay_def Let_def)

lemma scored0: "scoreGames (scoringEngine engine0) 0 [gameA, gameS] user0 hist0
   = [scoreGame DEFAULT_CONFIG 0 user0 hist0 gameS, scoreGame DEFAULT_CONFIG 0 user0 hist0 gameA]"
  by (simp add: engine0_def newRecommendationEngine_def scoreGames_def js_sort_def score_A score_S)

lemma fields0: "genreVector gameS = []" "genreVector gameA = []" "features gameS = {}" "features gameA = {}"
  "isSponsored gameS" "\<not> isSponsored gameA" "gameId gameS = ''s''" "gameId gameA = ''a''"
  by (simp_all add: gameA_def gameS_def game0_def)

lemma inj0: "injectSponsored (sponsoredInjector engine0)
        [scoreGame DEFAULT_CONFIG 0 user0 hist0 gameS, scoreGame DEFAULT_CONFIG 0 user0 hist0 gameA]
        [scoreGame DEFAULT_CONFIG 0 user0 hist0 gameS]
      = [scoreGame DEFAULT_CONFIG 0 user0 hist0 gameS, scoreGame DEFAULT_CONFIG 0 user0 hist0 gameA]"
    by (simp add: injectSponsored_def eligibleSponsoredOf_def game_scoreGame fields0)

lemma pop0: "map (\<lambda>sg. gameId (game sg)) (getPopularGames engine0 user0) = [''a'']"
    by (simp add: getPopularGames_def getPopularGamesByAgeBand_def engine0_def
        newRecommendationEngine_def candSource0_def DEFAULT_CONFIG_def user0_def
        isAgeBandEligible_def passesModeration_def checkFeatureRestrictions_def
        gameA_def game0_def Let_def)

lemma div0: "fst (diversify (diversityPass engine0)
        [scoreGame DEFAULT_CONFIG 0 user0 hist0 gameS, scoreGame DEFAULT_CONFIG 0 user0 hist0 gameA])
      = [scoreGame DEFAULT_CONFIG 0 user0 hist0 gameS, scoreGame DEFAULT_CONFIG 0 user0 hist0 gameA]"
    by (simp add: fst_diversify engine0_def newRecommendationEngine_def DEFAULT_CONFIG_def
        violatesDiversityRules_def violatesMaxPerGenre_def violatesAllMultiplayer_def
        updateGenreCounts_def game_scoreGame fields0 Let_def)

lemma trend0: "getTrendingGames engine0 user0 = []"
  by (simp add: getTrendingGames_def Let_def)

lemma run0:
  "generateRecommendations engine0 0 user0 hist0 =
     [\<lparr> bucketId = ''recommended_for_you'', title = ''Recommended For You'', games = [''s'', ''a''] \<rparr>,
      \<lparr> bucketId = ''popular_by_age'', title = ''Popular in Your Age Group'', games = [''a''] \<rparr>,
      \<lparr> bucketId = ''sponsored_events'', title = ''Sponsored Events'', games = [''s''] \<rparr>]"
proof -
  have sp: "filter (\<lambda>sg. isSponsored (game sg))
      [scoreGame DEFAULT_CONFIG 0 user0 hist0 gameS, scoreGame DEFAULT_CONFIG 0 user0 hist0 gameA]
      = [scoreGame DEFAULT_CONFIG 0 user0 hist0 gameS]"
    by (simp add: game_scoreGame fields0)
  have "generateRecommendations engine0 0 user0 hist0 =
      organizeBuckets
        [scoreGame DEFAULT_CONFIG 0 user0 hist0 gameS, scoreGame DEFAULT_CONFIG 0 user0 hist0 gameA]
        (getPopularGames engine0 user0) []
        [scoreGame DEFAULT_CONFIG 0 user0 hist0 gameS]"
    by (simp only: generateRecommendations_def Let_def cands0 elig0_run scored0 div0 sp inj0 trend0)
  also have "\<dots> = [\<lparr> bucketId = ''recommended_for_you'', title = ''Recommended For You'', games = [''s'', ''a''] \<rparr>,
      \<lparr> bucketId = ''popular_by_age'', title = ''Popular in Your Age Group'', games = [''a''] \<rparr>,
      \<lparr> bucketId = ''sponsored_events'', title = ''Sponsored Events'', games = [''s''] \<rparr>]"
    using pop0 by (auto simp: organizeBuckets_def game_scoreGame fields0)
  finally show ?thesis .
qed

lemma gameV_rejected: "\<not> isEligible (eligibilityFilter engine0) gameV user0"
  by (simp add: isEligible_rules engine0_def newRecommendationEngine_def user0_def
      gameV_def game0_def)

text \<open>
  Claim C1. Every identifier in every bucket \<open>generateRecommendations\<close> returns is the
  identifier of a game that the candidate generator or the popular-by-age source
  delivered and that \<open>isEligible\<close> accepts for the user context, under the engine's
  eligibility filter. This covers the sponsored bucket and the sponsored entries merged
  into the personalized list.
\<close>

theorem generateRecommendations_only_eligible:
  "\<forall>b \<in> set (generateRecommendations this now userContext userHistory).
     \<forall>i \<in> set (games b).
       \<exists>g \<in> set (generateCandidates (candidateGenerator this) userContext) \<union>
              set (getPopularGamesByAgeBand (candidateGenerator this) (ageBand userContext) 20).
         gameId g = i \<and> isEligible (eligibilityFilter this) g userContext"
proof (intro ballI)
  fix b i
  let ?cands = "generateCandidates (candidateGenerator this) userContext"
  let ?pop = "getPopularGamesByAgeBand (candidateGenerator this) (ageBand userContext) 20"
  let ?eligible = "filterEligible (eligibilityFilter this) ?cands userContext"
  let ?scored = "scoreGames (scoringEngine this) now ?eligible userContext userHistory"
  let ?div = "fst (diversify (diversityPass this) ?scored)"
  let ?spons = "filter (\<lambda>sg. isSponsored (game sg)) ?scored"
  let ?with = "injectSponsored (sponsoredInjector this) ?div ?spons"
  let ?popular = "getPopularGames this userContext"
  assume b: "b \<in> set (generateRecommendations this now userContext userHistory)"
    and i: "i \<in> set (games b)"
  from b have "b \<in> set (organizeBuckets ?with ?popular [] ?spons)"
    by (simp add: generateRecommendations_def Let_def getTrendingGames_empty)
  from organizeBuckets_games [OF this] i
  obtain sg where sg: "sg \<in> set ?with \<union> set ?popular \<union> set ?spons" and id: "gameId (game sg) = i"
    by auto
  have "set ?with \<subseteq> set ?scored"
    using set_injectSponsored [of "sponsoredInjector this" ?div ?spons]
      set_diversify [of "diversityPass this" ?scored] by auto
  with sg have "sg \<in> set ?scored \<or> sg \<in> set ?popular" by auto
  then have "game sg \<in> {g \<in> set ?cands. isEligible (eligibilityFilter this) g userContext}
      \<or> game sg \<in> {g \<in> set ?pop. isEligible (eligibilityFilter this) g userContext}"
  proof
    assume "sg \<in> set ?scored"
    then have "game sg \<in> game ` set ?scored" by (rule imageI)
    then have "game sg \<in> set ?eligible" by (simp only: game_set_scoreGames)
    then show ?thesis by (simp only: set_filterEligible) blast
  next
    assume "sg \<in> set ?popular"
    then have "game sg \<in> game ` set ?popular" by (rule imageI)
    then show ?thesis by (simp only: game_set_getPopularGames) blast
  qed
  with id show "\<exists>g \<in> set ?cands \<union> set ?pop.
      gameId g = i \<and> isEligible (eligibilityFilter this) g userContext"
    by blast
qed

theorem generateRecommendations_only_eligible_witness:
  "generateRecommendations engine0 0 user0 hist0 =
     [\<lparr> bucketId = ''recommended_for_you'', title = ''Recommended For You'',
         games = [''s'', ''a''] \<rparr>,
      \<lparr> bucketId = ''popular_by_age'', title = ''Popular in Your Age Group'',
         games = [''a''] \<rparr>,
      \<lparr> bucketId = ''sponsored_events'', title = ''Sponsored Events'', games = [''s''] \<rparr>] \<and>
   (\<exists>g \<in> set (generateCandidates (candidateGenerator engine0) user0) \<union>
          set (getPopularGamesByAgeBand (candidateGenerator engine0) (ageBand user0) 20).
      gameId g = ''s'' \<and> isEligible (eligibilityFilter engine0) g user0) \<and>
   gameV \<in> set (generateCandidates (candidateGenerator engine0) user0) \<and>
   \<not> isEligible (eligibilityFilter engine0) gameV user0"
proof -
  let ?b = "\<lparr> bucketId = ''sponsored_events'', title = ''Sponsored Events'', games = [''s''] \<rparr>"
  have "?b \<in> set (generateRecommendations engine0 0 user0 hist0)"
    by (simp add: run0)
  moreover have "''s'' \<in> set (games ?b)" by simp
  ultimately have "\<exists>g \<in> set (generateCandidates (candidateGenerator engine0) user0) \<union>
          set (getPopularGamesByAgeBand (candidateGenerator engine0) (ageBand user0) 20).
      gameId g = ''s'' \<and> isEligible (eligibilityFilter engine0) g user0"
    using generateRecommendations_only_eligible [of engine0 0 user0 hist0] by blast
  moreover have "gameV \<in> set (generateCandidates (candidateGenerator engine0) user0)"
    by (simp add: cands0)
  ultimately show ?thesis using run0 gameV_rejected by blast
qed

text \<open>
  Claim C10. The helper \<open>getTrendingGames\<close> returns the empty list for every engine and
  user context, \<open>organizeBuckets\<close> given an empty trending list produces no bucket named
  \<open>new_and_trending\<close>, and so no bucket \<open>generateRecommendations\<close> returns has that name.
\<close>

theorem generateRecommendations_no_trending_bucket:
  "getTrendingGames this userContext = [] \<and>
   ''new_and_trending'' \<notin> bucketId ` set (organizeBuckets recommended popular [] sponsored) \<and>
   ''new_and_trending'' \<notin>
      bucketId ` set (generateRecommendations this now userContext userHistory)"
proof -
  have none: "''new_and_trending'' \<notin> bucketId ` set (organizeBuckets r p [] sp)" for r p sp
    by (auto simp: organizeBuckets_def)
  have "generateRecommendations this now userContext userHistory =
      organizeBuckets
        (injectSponsored (sponsoredInjector this)
           (fst (diversify (diversityPass this)
              (scoreGames (scoringEngine this) now
                 (filterEligible (eligibilityFilter this)
                    (generateCandidates (candidateGenerator this) userContext) userContext)
                 userContext userHistory)))
           (filter (\<lambda>sg. isSponsored (game sg))
              (scoreGames (scoringEngine this) now
                 (filterEligible (eligibilityFilter this)
                    (generateCandidates (candidateGenerator this) userContext) userContext)
                 userContext userHistory)))
        (getPopularGames this userContext) []
        (filter (\<lambda>sg. isSponsored (game sg))
              (scoreGames (scoringEngine this) now
                 (filterEligible (eligibilityFilter this)
                    (generateCandidates (candidateGenerator this) userContext) userContext)
                 userContext userHistory))"
    by (simp only: generateRecommendations_def Let_def getTrendingGames_empty)
  with none show ?thesis
    by (simp only: getTrendingGames_empty) simp
qed

lemma trending_chart0:
  "map entry_gameId
     (generateTopTrending (chartGenerator engine0) (ageBand user0) (platform user0) 20)
     = [''s'', ''a'']"
  by (simp add: generateTopTrending_def engine0_def newRecommendationEngine_def
      chartSource0_def metrics0_def trendingScore_def sortAndRank_def js_sort_def
      gameA_def gameS_def game0_def enumerate_eq_zip upt_rec Let_def)

theorem generateRecommendations_no_trending_bucket_witness:
  "map entry_gameId
     (generateTopTrending (chartGenerator engine0) (ageBand user0) (platform user0) 20)
     = [''s'', ''a''] \<and>
   getTrendingGames engine0 user0 = [] \<and>
   map bucketId (generateRecommendations engine0 0 user0 hist0)
     = [''recommended_for_you'', ''popular_by_age'', ''sponsored_events''] \<and>
   ''new_and_trending'' \<notin> bucketId ` set (generateRecommendations engine0 0 user0 hist0)"
  using generateRecommendations_no_trending_bucket [of engine0 user0 "[]" "[]" "[]" 0 hist0]
    trending_chart0
  by (simp add: run0)

section \<open>Charts: order and ranks\<close>

lemma rank_enumerate:
  "map (rank \<circ> (\<lambda>(index, entry). entry\<lparr>rank := Suc index\<rparr>)) (enumerate n ys) =
     [Suc n..<Suc n + length ys]"
  by (induction ys arbitrary: n) (simp_all add: upt_conv_Cons del: upt_Suc)

lemma score_enumerate:
  "map (entry_score \<circ> (\<lambda>(index, entry). entry\<lparr>rank := Suc index\<rparr>)) (enumerate n ys) =
     map entry_score ys"
  by (induction ys arbitrary: n) simp_all

lemma rank_sortAndRank:
  "map rank (sortAndRank limit chartList) = [1..<Suc (min limit (length chartList))]"
  by (simp add: sortAndRank_def rank_enumerate length_js_sort min.commute del: upt_Suc)

lemma score_sortAndRank:
  "map entry_score (sortAndRank limit chartList) =
     map entry_score (take limit (js_sort (\<lambda>a b. entry_score b - entry_score a) chartList))"
  by (simp add: sortAndRank_def score_enumerate)

lemma sorted_sortAndRank:
  "sorted_wrt (\<lambda>a b. entry_score a \<ge> entry_score b) (sortAndRank limit chartList)"
proof -
  have "sorted_wrt (\<lambda>a b. entry_score a \<ge> entry_score b)
      (take limit (js_sort (\<lambda>a b. entry_score b - entry_score a) chartList))"
    by (intro sorted_wrt_take sorted_js_sort)
  then have "sorted_wrt (\<lambda>x y. x \<ge> y) (map entry_score (sortAndRank limit chartList))"
    by (simp only: score_sortAndRank sorted_wrt_map)
  then show ?thesis by (simp only: sorted_wrt_map)
qed

lemma sortAndRank_map:
  "sorted_wrt (\<lambda>a b. entry_score a \<ge> entry_score b) (sortAndRank limit (map f xs)) \<and>
   map rank (sortAndRank limit (map f xs)) = [1..<Suc (min limit (length xs))]"
  by (simp only: sorted_sortAndRank rank_sortAndRank length_map)

lemma passesChartFilter_kinds:
  "passesChartFilter source now TOP_TRENDING genreId band plat = (\<lambda>g. True)"
  "passesChartFilter source now TOP_PLAYING_NOW genreId band plat = (\<lambda>g. True)"
  "passesChartFilter source now TOP_EARNING genreId band plat = (\<lambda>g. True)"
  "passesChartFilter source now UP_AND_COMING genreId band plat =
     (\<lambda>g. \<not> (now - releaseDate g) div msPerDay > 30)"
  "passesChartFilter source now TOP_REPLAYED genreId band plat =
     (\<lambda>g. \<not> metrics_uniquePlayers (getGameMetrics source (gameId g) band plat) = 0)"
  "passesChartFilter source now TOP_RATED genreId band plat =
     (\<lambda>g. \<not> metrics_likes (getGameMetrics source (gameId g) band plat) +
              metrics_dislikes (getGameMetrics source (gameId g) band plat) = 0)"
  "passesChartFilter source now TRENDING_IN_GENRE (Some gid) band plat =
     (\<lambda>g. gid \<in> set (map fst (genreVector g)))"
  by (simp_all add: fun_eq_iff passesChartFilter_def not_less)

lemma ranked_sortAndRank:
  "ranked_chart limit (length xs) (sortAndRank limit (map f xs))"
  by (simp only: ranked_chart_def sortAndRank_map simp_thms)

lemma generators_ranked:
  "ranked_chart limit
     (length (filter (passesChartFilter source now TOP_TRENDING genreId band plat)
        (fetchGamesByAgeAndPlatform source band plat)))
     (generateTopTrending source band plat limit)"
  "ranked_chart limit
     (length (filter (passesChartFilter source now UP_AND_COMING genreId band plat)
        (fetchGamesByAgeAndPlatform source band plat)))
     (generateUpAndComing source now band plat limit)"
  "ranked_chart limit
     (length (filter (passesChartFilter source now TOP_PLAYING_NOW genreId band plat)
        (fetchGamesByAgeAndPlatform source band plat)))
     (generateTopPlayingNow source band plat limit)"
  "ranked_chart limit
     (length (filter (passesChartFilter source now TOP_REPLAYED genreId band plat)
        (fetchGamesByAgeAndPlatform source band plat)))
     (generateTopReplayed source band plat limit)"
  "ranked_chart limit
     (length (filter (passesChartFilter source now TOP_EARNING genreId band plat)
        (fetchGamesByAgeAndPlatform source band plat)))
     (generateTopEarning source band plat limit)"
  "ranked_chart limit
     (length (filter (passesChartFilter source now TOP_RATED genreId band plat)
        (fetchGamesByAgeAndPlatform source band plat)))
     (generateTopRated source band plat limit)"
  "ranked_chart limit
     (length (filter (passesChartFilter source now TRENDING_IN_GENRE (Some gid) band plat)
        (fetchGamesByAgeAndPlatform source band plat)))
     (generateTrendingInGenre source gid band plat limit)"
proof -
  have all: "filter (\<lambda>g. True) xs = xs" for xs :: "Game list"
    by simp
  show "ranked_chart limit
     (length (filter (passesChartFilter source now TOP_TRENDING genreId band plat)
        (fetchGamesByAgeAndPlatform source band plat)))
     (generateTopTrending source band plat limit)"
    unfolding generateTopTrending_def Let_def passesChartFilter_kinds all
    by (rule ranked_sortAndRank)
  show "ranked_chart limit
     (length (filter (passesChartFilter source now UP_AND_COMING genreId band plat)
        (fetchGamesByAgeAndPlatform source band plat)))
     (generateUpAndComing source now band plat limit)"
    unfolding generateUpAndComing_def Let_def passesChartFilter_kinds
    by (rule ranked_sortAndRank)
  show "ranked_chart limit
     (length (filter (passesChartFilter source now TOP_PLAYING_NOW genreId band plat)
        (fetchGamesByAgeAndPlatform source band plat)))
     (generateTopPlayingNow source band plat limit)"
    unfolding generateTopPlayingNow_def Let_def passesChartFilter_kinds all
    by (rule ranked_sortAndRank)
  show "ranked_chart limit
     (length (filter (passesChartFilter source now TOP_REPLAYED genreId band plat)
        (fetchGamesByAgeAndPlatform source band plat)))
     (generateTopReplayed source band plat limit)"
    unfolding generateTopReplayed_def Let_def passesChartFilter_kinds
    by (rule ranked_sortAndRank)
  show "ranked_chart limit
     (length (filter (passesChartFilter source now TOP_EARNING genreId band plat)
        (fetchGamesByAgeAndPlatform source band plat)))
     (generateTopEarning source band plat limit)"
    unfolding generateTopEarning_def Let_def passesChartFilter_kinds all
    by (rule ranked_sortAndRank)
  show "ranked_chart limit
     (length (filter (passesChartFilter source now TOP_RATED genreId band plat)
        (fetchGamesByAgeAndPlatform source band plat)))
     (generateTopRated source band plat limit)"
    unfolding generateTopRated_def Let_def passesChartFilter_kinds
    by (rule ranked_sortAndRank)
  show "ranked_chart limit
     (length (filter (passesChartFilter source now TRENDING_IN_GENRE (Some gid) band plat)
        (fetchGamesByAgeAndPlatform source band plat)))
     (generateTrendingInGenre source gid band plat limit)"
    unfolding generateTrendingInGenre_def Let_def passesChartFilter_kinds
    by (rule ranked_sortAndRank)
qed

text \<open>
  The requests \<open>generateChart\<close> answers with a chart: the chart of the generator of the
  kind, under the given limit or 50.
\<close>

lemma generateChart_returns:
  assumes "\<forall>name. chartType \<noteq> OTHER_CHART_TYPE name"
      and "chartType = TRENDING_IN_GENRE \<longrightarrow> (\<exists>gid. genreId = Some gid \<and> gid \<noteq> 0)"
  shows "\<exists>entries. generateChart this now chartType band plat limitArg genreId = Inr entries \<and>
           ranked_chart (case limitArg of None \<Rightarrow> 50 | Some l \<Rightarrow> l)
             (length (filter
                (passesChartFilter (chartGenerator this) now chartType genreId band plat)
                (fetchGamesByAgeAndPlatform (chartGenerator this) band plat)))
             entries"
proof (cases chartType)
  case TOP_TRENDING
  then show ?thesis by (simp add: generateChart_def Let_def generators_ranked(1))
next
  case UP_AND_COMING
  then show ?thesis by (simp add: generateChart_def Let_def generators_ranked(2))
next
  case TOP_PLAYING_NOW
  then show ?thesis by (simp add: generateChart_def Let_def generators_ranked(3))
next
  case TOP_REPLAYED
  then show ?thesis by (simp add: generateChart_def Let_def generators_ranked(4))
next
  case TOP_EARNING
  then show ?thesis by (simp add: generateChart_def Let_def generators_ranked(5))
next
  case TOP_RATED
  then show ?thesis by (simp add: generateChart_def Let_def generators_ranked(6))
next
  case TRENDING_IN_GENRE
  with assms(2) obtain gid where "genreId = Some gid" "gid \<noteq> 0" by auto
  with TRENDING_IN_GENRE show ?thesis
    by (simp add: generateChart_def Let_def generators_ranked(7))
next
  case (OTHER_CHART_TYPE name)
  with assms(1) show ?thesis by simp
qed

text \<open>
  Claim C6. For every data source, age band, platform and limit (a count), each of the
  seven chart generators returns its entries in order of score, never increasing, with
  ranks in list order exactly \<open>1, \<dots>, N\<close>, where \<open>N\<close> is the smaller of the limit and the
  number of candidates that pass the filter of the kind; the genre chart does so for every
  genre identifier. \<open>generateChart\<close> returns such a chart for every chart kind of the
  enumeration, the genre chart given a genre identifier other than 0, under the limit it
  is given or 50 when the limit is left out.
\<close>

theorem generateChart_ranks:
  "ranked_chart limit
     (length (filter (passesChartFilter source now TOP_TRENDING genreId band plat)
        (fetchGamesByAgeAndPlatform source band plat)))
     (generateTopTrending source band plat limit) \<and>
   ranked_chart limit
     (length (filter (passesChartFilter source now UP_AND_COMING genreId band plat)
        (fetchGamesByAgeAndPlatform source band plat)))
     (generateUpAndComing source now band plat limit) \<and>
   ranked_chart limit
     (length (filter (passesChartFilter source now TOP_PLAYING_NOW genreId band plat)
        (fetchGamesByAgeAndPlatform source band plat)))
     (generateTopPlayingNow source band plat limit) \<and>
   ranked_chart limit
     (length (filter (passesChartFilter source now TOP_REPLAYED genreId band plat)
        (fetchGamesByAgeAndPlatform source band plat)))
     (generateTopReplayed source band plat limit) \<and>
   ranked_chart limit
     (length (filter (passesChartFilter source now TOP_EARNING genreId band plat)
        (fetchGamesByAgeAndPlatform source band plat)))
     (generateTopEarning source band plat limit) \<and>
   ranked_chart limit
     (length (filter (passesChartFilter source now TOP_RATED genreId band plat)
        (fetchGamesByAgeAndPlatform source band plat)))
     (generateTopRated source band plat limit) \<and>
   ranked_chart limit
     (length (filter (passesChartFilter source now TRENDING_IN_GENRE (Some gid) band plat)
        (fetchGamesByAgeAndPlatform source band plat)))
     (generateTrendingInGenre source gid band plat limit) \<and>
   ((\<forall>name. chartType \<noteq> OTHER_CHART_TYPE name) \<and>
    (chartType = TRENDING_IN_GENRE \<longrightarrow> (\<exists>gid. genreId = Some gid \<and> gid \<noteq> 0)) \<longrightarrow>
    (\<exists>entries. generateChart this now chartType band plat limitArg genreId = Inr entries \<and>
       ranked_chart (case limitArg of None \<Rightarrow> 50 | Some l \<Rightarrow> l)
         (length (filter
            (passesChartFilter (chartGenerator this) now chartType genreId band plat)
            (fetchGamesByAgeAndPlatform (chartGenerator this) band plat)))
         entries))"
proof (intro conjI impI)
  assume "(\<forall>name. chartType \<noteq> OTHER_CHART_TYPE name) \<and>
    (chartType = TRENDING_IN_GENRE \<longrightarrow> (\<exists>gid. genreId = Some gid \<and> gid \<noteq> 0))"
  then show "\<exists>entries. generateChart this now chartType band plat limitArg genreId = Inr entries \<and>
       ranked_chart (case limitArg of None \<Rightarrow> 50 | Some l \<Rightarrow> l)
         (length (filter
            (passesChartFilter (chartGenerator this) now chartType genreId band plat)
            (fetchGamesByAgeAndPlatform (chartGenerator this) band plat)))
         entries"
    using generateChart_returns [of chartType genreId this now band plat limitArg] by blast
qed (rule generators_ranked)+

lemma chart0:
  "generateChart engine0 0 TOP_TRENDING AGE_9_TO_12 PC (Some 1) None =
     Inr [\<lparr> entry_gameId = ''s'', entry_score = 7, rank = 1 \<rparr>]"
  by (simp add: generateChart_def generateTopTrending_def engine0_def newRecommendationEngine_def
      chartSource0_def metrics0_def trendingScore_def sortAndRank_def js_sort_def
      gameA_def gameS_def game0_def enumerate_eq_zip upt_rec Let_def)

lemma chart_genre2:
  "generateChart (engine0\<lparr>chartGenerator := chartSourceGenres\<rparr>) 0 TRENDING_IN_GENRE
       AGE_9_TO_12 PC None (Some 2)
     = Inr [\<lparr> entry_gameId = ''s'', entry_score = 3, rank = 1 \<rparr>]"
  by (simp add: generateChart_def generateTrendingInGenre_def chartSourceGenres_def
      metrics0_def trendingScore_def sortAndRank_def js_sort_def gameA_def gameS_def game0_def
      enumerate_eq_zip upt_rec Let_def)

lemma chart_genre0:
  "generateTrendingInGenre chartSourceGenres 0 AGE_9_TO_12 PC 50
     = [\<lparr> entry_gameId = ''a'', entry_score = 3, rank = 1 \<rparr>]"
  by (simp add: generateTrendingInGenre_def chartSourceGenres_def
      metrics0_def trendingScore_def sortAndRank_def js_sort_def gameA_def gameS_def game0_def
      enumerate_eq_zip upt_rec Let_def)

text \<open>
  The witness: a top-trending chart of two candidates cut to one entry, the genre chart
  of genre 2 through \<open>generateChart\<close>, and the genre chart of genre 0 from its generator.
\<close>

theorem generateChart_ranks_witness:
  "generateChart engine0 0 TOP_TRENDING AGE_9_TO_12 PC (Some 1) None =
     Inr [\<lparr> entry_gameId = ''s'', entry_score = 7, rank = 1 \<rparr>] \<and>
   (\<exists>entries. generateChart engine0 0 TOP_TRENDING AGE_9_TO_12 PC (Some 1) None = Inr entries \<and>
      ranked_chart 1
        (length (filter
           (passesChartFilter (chartGenerator engine0) 0 TOP_TRENDING None AGE_9_TO_12 PC)
           (fetchGamesByAgeAndPlatform (chartGenerator engine0) AGE_9_TO_12 PC)))
        entries) \<and>
   generateChart (engine0\<lparr>chartGenerator := chartSourceGenres\<rparr>) 0 TRENDING_IN_GENRE
       AGE_9_TO_12 PC None (Some 2)
     = Inr [\<lparr> entry_gameId = ''s'', entry_score = 3, rank = 1 \<rparr>] \<and>
   (\<exists>entries. generateChart (engine0\<lparr>chartGenerator := chartSourceGenres\<rparr>) 0
         TRENDING_IN_GENRE AGE_9_TO_12 PC None (Some 2) = Inr entries \<and>
      ranked_chart 50
        (length (filter
           (passesChartFilter chartSourceGenres 0 TRENDING_IN_GENRE (Some 2) AGE_9_TO_12 PC)
           (fetchGamesByAgeAndPlatform chartSourceGenres AGE_9_TO_12 PC)))
        entries) \<and>
   generateTrendingInGenre chartSourceGenres 0 AGE_9_TO_12 PC 50
     = [\<lparr> entry_gameId = ''a'', entry_score = 3, rank = 1 \<rparr>] \<and>
   ranked_chart 50
     (length (filter
        (passesChartFilter chartSourceGenres 0 TRENDING_IN_GENRE (Some 0) AGE_9_TO_12 PC)
        (fetchGamesByAgeAndPlatform chartSourceGenres AGE_9_TO_12 PC)))
     (generateTrendingInGenre chartSourceGenres 0 AGE_9_TO_12 PC 50)"
proof -
  have known1: "(\<forall>name. TOP_TRENDING \<noteq> OTHER_CHART_TYPE name) \<and>
      (TOP_TRENDING = TRENDING_IN_GENRE \<longrightarrow> (\<exists>gid. (None :: GenreId option) = Some gid \<and> gid \<noteq> 0))"
    by simp
  have known2: "(\<forall>name. TRENDING_IN_GENRE \<noteq> OTHER_CHART_TYPE name) \<and>
      (TRENDING_IN_GENRE = TRENDING_IN_GENRE \<longrightarrow> (\<exists>gid. Some (2 :: GenreId) = Some gid \<and> gid \<noteq> 0))"
    by simp
  have w1: "\<exists>entries. generateChart engine0 0 TOP_TRENDING AGE_9_TO_12 PC (Some 1) None = Inr entries \<and>
      ranked_chart 1
        (length (filter
           (passesChartFilter (chartGenerator engine0) 0 TOP_TRENDING None AGE_9_TO_12 PC)
           (fetchGamesByAgeAndPlatform (chartGenerator engine0) AGE_9_TO_12 PC)))
        entries"
    using mp [OF conjunct2 [OF conjunct2 [OF conjunct2 [OF conjunct2 [OF conjunct2
      [OF conjunct2 [OF conjunct2 [OF generateChart_ranks
         [where chartType = TOP_TRENDING and genreId = None and this = engine0
            and limitArg = "Some 1" and now = 0 and band = AGE_9_TO_12 and plat = PC]]]]]]]] known1]
    by simp
  have w2: "\<exists>entries. generateChart (engine0\<lparr>chartGenerator := chartSourceGenres\<rparr>) 0
         TRENDING_IN_GENRE AGE_9_TO_12 PC None (Some 2) = Inr entries \<and>
      ranked_chart 50
        (length (filter
           (passesChartFilter chartSourceGenres 0 TRENDING_IN_GENRE (Some 2) AGE_9_TO_12 PC)
           (fetchGamesByAgeAndPlatform chartSourceGenres AGE_9_TO_12 PC)))
        entries"
    using mp [OF conjunct2 [OF conjunct2 [OF conjunct2 [OF conjunct2 [OF conjunct2
      [OF conjunct2 [OF conjunct2 [OF generateChart_ranks
         [where chartType = TRENDING_IN_GENRE and genreId = "Some 2"
            and this = "engine0\<lparr>chartGenerator := chartSourceGenres\<rparr>"
            and limitArg = None and now = 0 and band = AGE_9_TO_12 and plat = PC]]]]]]]] known2]
    by simp
  have w3: "ranked_chart 50
     (length (filter
        (passesChartFilter chartSourceGenres 0 TRENDING_IN_GENRE (Some 0) AGE_9_TO_12 PC)
        (fetchGamesByAgeAndPlatform chartSourceGenres AGE_9_TO_12 PC)))
     (generateTrendingInGenre chartSourceGenres 0 AGE_9_TO_12 PC 50)"
    by (rule conjunct1 [OF conjunct2 [OF conjunct2 [OF conjunct2 [OF conjunct2 [OF conjunct2
      [OF conjunct2 [OF generateChart_ranks]]]]]]])
  show ?thesis using chart0 w1 chart_genre2 w2 chart_genre0 w3 by (intro conjI)
qed

text \<open>
  Claim C7, at the input where the code departs from it. With the genre identifier 0
  supplied, \<open>generateChart\<close> rejects the request as if the identifier were missing,
  although the generator it guards produces the chart of genre 0.
\<close>

theorem generateChart_genre_zero:
  "generateChart (engine0\<lparr>chartGenerator := chartSourceGenre0\<rparr>) 0 TRENDING_IN_GENRE
       AGE_9_TO_12 PC None (Some 0)
     = Inl (Error ''genreId is required for TRENDING_IN_GENRE chart'') \<and>
   generateTrendingInGenre chartSourceGenre0 0 AGE_9_TO_12 PC 50
     = [\<lparr> entry_gameId = ''a'', entry_score = 3, rank = 1 \<rparr>]"
  by (simp add: generateChart_def generateTrendingInGenre_def chartSourceGenre0_def
      metrics0_def trendingScore_def sortAndRank_def js_sort_def gameA_def game0_def
      enumerate_eq_zip upt_rec Let_def)

text \<open>The requests \<open>generateChart\<close> rejects, exactly.\<close>

lemma generateChart_error_iff:
  "(\<exists>e. generateChart this now chartType band plat limitArg genreId = Inl e) \<longleftrightarrow>
     (\<exists>name. chartType = OTHER_CHART_TYPE name) \<or>
     (chartType = TRENDING_IN_GENRE \<and> (genreId = None \<or> genreId = Some 0))"
  by (cases chartType) (auto simp: generateChart_def Let_def split: option.splits)

section \<open>Reconfiguration\<close>

text \<open>
  Claim C8 as stated fails: after \<open>updateConfig\<close> the engine at the same reference
  reads back a different configuration, and the store holds no further engine.
\<close>

theorem updateConfig_in_place_counterexample:
  "map_option maxResults (getConfig 0 store0) = Some 50 \<and>
   map_option maxResults (getConfig 0 (updateConfig 0 (noChange\<lparr>new_maxResults := Some 10\<rparr>) store0))
     = Some 10 \<and>
   dom (updateConfig 0 (noChange\<lparr>new_maxResults := Some 10\<rparr>) store0) = dom store0"
  by (auto simp: getConfig_def updateConfig_def store0_def engine0_def newRecommendationEngine_def
      DEFAULT_CONFIG_def spreadConfig_def or_else_def noChange_def Let_def)

text \<open>
  Claim C8, as the code has it. \<open>updateConfig\<close> works in place: the store has the same
  references afterwards, every other engine is untouched, and the engine it was called
  on has the spread of its old configuration and the overlay as its configuration, with
  scoring engine and diversity pass rebuilt from it and all other fields as before.
\<close>

theorem updateConfig_effect:
  assumes "store this = Some e"
  shows "dom (updateConfig this newConfig store) = dom store \<and>
         (\<forall>r. r \<noteq> this \<longrightarrow> updateConfig this newConfig store r = store r) \<and>
         updateConfig this newConfig store this =
           Some (e\<lparr> config := spreadConfig (config e) newConfig,
                     scoringEngine := spreadConfig (config e) newConfig,
                     diversityPass := spreadConfig (config e) newConfig \<rparr>) \<and>
         getConfig this (updateConfig this newConfig store)
           = Some (spreadConfig (config e) newConfig)"
  using assms by (auto simp: updateConfig_def getConfig_def Let_def)

theorem updateConfig_effect_witness:
  "store0 0 = Some engine0 \<and>
   dom (updateConfig 0 (noChange\<lparr>new_maxResults := Some 10\<rparr>) store0) = {0, 1} \<and>
   updateConfig 0 (noChange\<lparr>new_maxResults := Some 10\<rparr>) store0 1 = Some engine1 \<and>
   getConfig 0 (updateConfig 0 (noChange\<lparr>new_maxResults := Some 10\<rparr>) store0)
     = Some (DEFAULT_CONFIG\<lparr>maxResults := 10\<rparr>)"
proof -
  have s: "store0 0 = Some engine0" by (simp add: store0_def)
  have s1: "store0 1 = Some engine1" by (simp add: store0_def)
  have c: "spreadConfig (config engine0) (noChange\<lparr>new_maxResults := Some 10\<rparr>)
      = DEFAULT_CONFIG\<lparr>maxResults := 10\<rparr>"
    by (simp add: engine0_def newRecommendationEngine_def spreadConfig_def or_else_def
        noChange_def)
  have d: "dom store0 = {0, 1}" by (auto simp: store0_def)
  from updateConfig_effect [of store0 0 engine0 "noChange\<lparr>new_maxResults := Some 10\<rparr>", OF s]
  have "dom (updateConfig 0 (noChange\<lparr>new_maxResults := Some 10\<rparr>) store0) = dom store0"
    and "updateConfig 0 (noChange\<lparr>new_maxResults := Some 10\<rparr>) store0 1 = store0 1"
    and "getConfig 0 (updateConfig 0 (noChange\<lparr>new_maxResults := Some 10\<rparr>) store0)
      = Some (spreadConfig (config engine0) (noChange\<lparr>new_maxResults := Some 10\<rparr>))"
    by simp_all
  then show ?thesis using s by (simp only: c d s1)
qed

text \<open>
  Claim C9. \<open>updateConfig\<close> leaves the eligibility filter and the sponsored injector of
  the engine as they are, whatever the overlay holds: \<open>filterEligible\<close> and
  \<open>injectSponsored\<close> return after the update what they returned before it, and on an
  engine fresh from the constructor they still work with the moderation threshold and
  the sponsored allowance of the configuration the engine was built with.
\<close>

theorem updateConfig_keeps_filter_and_injector:
  assumes "store this = Some e"
  shows "\<exists>e'. updateConfig this newConfig store this = Some e' \<and>
           eligibilityFilter e' = eligibilityFilter e \<and>
           sponsoredInjector e' = sponsoredInjector e \<and>
           filterEligible (eligibilityFilter e') candidates userContext
             = filterEligible (eligibilityFilter e) candidates userContext \<and>
           injectSponsored (sponsoredInjector e') diversifiedGames sponsoredGames
             = injectSponsored (sponsoredInjector e) diversifiedGames sponsoredGames \<and>
           (e = newRecommendationEngine cfg candidateSource chartSource sponsoredOn \<longrightarrow>
              moderationThreshold (eligibilityFilter e') = cfg_moderationThreshold cfg \<and>
              sponsoredInjector e' = maxSponsoredPerList cfg)"
  using assms by (simp add: updateConfig_def Let_def newRecommendationEngine_def)

theorem updateConfig_keeps_filter_and_injector_witness:
  "store0 0 = Some engine0 \<and>
   map_option cfg_moderationThreshold
     (getConfig 0 (updateConfig 0
        (noChange\<lparr>new_moderationThreshold := Some 0, new_maxSponsoredPerList := Some 0\<rparr>)
        store0)) = Some 0 \<and>
   (\<exists>e'. updateConfig 0
           (noChange\<lparr>new_moderationThreshold := Some 0, new_maxSponsoredPerList := Some 0\<rparr>)
           store0 0 = Some e' \<and>
         filterEligible (eligibilityFilter e') [game0\<lparr>moderationScore := 1 / 2\<rparr>] user0 = [] \<and>
         moderationThreshold (eligibilityFilter e') = 4 / 5 \<and>
         sponsoredInjector e' = 3)"
proof -
  let ?p = "noChange\<lparr>new_moderationThreshold := Some 0, new_maxSponsoredPerList := Some 0\<rparr>"
  have s: "store0 0 = Some engine0" by (simp add: store0_def)
  have c: "map_option cfg_moderationThreshold (getConfig 0 (updateConfig 0 ?p store0)) = Some 0"
    by (simp add: getConfig_def updateConfig_def store0_def spreadConfig_def or_else_def
        noChange_def Let_def)
  have before: "filterEligible (eligibilityFilter engine0)
      [game0\<lparr>moderationScore := 1 / 2\<rparr>] user0 = []"
    by (simp add: engine0_def newRecommendationEngine_def DEFAULT_CONFIG_def
        isAgeBandEligible_def passesModeration_def game0_def user0_def)
  have built: "engine0 = newRecommendationEngine DEFAULT_CONFIG candSource0 chartSource0 True"
    by (simp add: engine0_def)
  have vals: "cfg_moderationThreshold DEFAULT_CONFIG = 4 / 5"
    "maxSponsoredPerList DEFAULT_CONFIG = 3"
    by (simp_all add: DEFAULT_CONFIG_def)
  from updateConfig_keeps_filter_and_injector
    [of store0 0 engine0 ?p "[game0\<lparr>moderationScore := 1 / 2\<rparr>]" user0 "[]" "[]"
       DEFAULT_CONFIG candSource0 chartSource0 True, OF s]
  obtain e' where "updateConfig 0 ?p store0 0 = Some e'"
    and "filterEligible (eligibilityFilter e') [game0\<lparr>moderationScore := 1 / 2\<rparr>] user0
           = filterEligible (eligibilityFilter engine0) [game0\<lparr>moderationScore := 1 / 2\<rparr>] user0"
    and "moderationThreshold (eligibilityFilter e') = cfg_moderationThreshold DEFAULT_CONFIG"
    and "sponsoredInjector e' = maxSponsoredPerList DEFAULT_CONFIG"
    using built by auto
  then have "updateConfig 0 ?p store0 0 = Some e' \<and>
      filterEligible (eligibilityFilter e') [game0\<lparr>moderationScore := 1 / 2\<rparr>] user0 = [] \<and>
      moderationThreshold (eligibilityFilter e') = 4 / 5 \<and> sponsoredInjector e' = 3"
    by (simp only: before vals)
  then show ?thesis using s c by (intro conjI exI [of _ e']) simp_all
qed

end
